theory Spec2Isabelle
  imports Complex_Main "HOL-Library.Sublist"
begin

section \<open>RateLimiter (src/utils/rate-limiter.ts)\<close>

text \<open>
  Times are the millisecond readings of \<^verbatim>\<open>Date.now()\<close>, modelled as \<open>int\<close>; every
  operation that reads the clock takes the reading as its first argument.
\<close>

record RateLimiterOptions =
  maxRequests :: int
  windowMs :: int

record RateLimiter =
  rl_options :: RateLimiterOptions
  requests :: "int list"

definition new_RateLimiter :: "RateLimiterOptions \<Rightarrow> RateLimiter" where
  "new_RateLimiter opts = \<lparr>rl_options = opts, requests = []\<rparr>"

definition tryAcquire :: "int \<Rightarrow> RateLimiter \<Rightarrow> bool \<times> RateLimiter" where
  "tryAcquire now rl =
     (let windowStart = now - windowMs (rl_options rl);
          rl1 = rl\<lparr>requests := filter (\<lambda>time. time > windowStart) (requests rl)\<rparr>
      in if int (length (requests rl1)) < maxRequests (rl_options rl1)
         then (True, rl1\<lparr>requests := requests rl1 @ [now]\<rparr>)
         else (False, rl1))"

definition getResetTime :: "int \<Rightarrow> RateLimiter \<Rightarrow> int" where
  "getResetTime now rl =
     (if length (requests rl) = 0 then 0
      else (let oldestRequest = Min (set (requests rl));
                resetTime = oldestRequest + windowMs (rl_options rl) - now
            in max 0 resetTime))"

text \<open>A run of \<open>tryAcquire\<close> calls, one per clock reading, on the same limiter.\<close>

fun tryAcquire_calls :: "int list \<Rightarrow> RateLimiter \<Rightarrow> bool list \<times> RateLimiter" where
  "tryAcquire_calls [] rl = ([], rl)"
| "tryAcquire_calls (t # ts) rl =
     (case tryAcquire t rl of (ok, rl1) \<Rightarrow>
        (case tryAcquire_calls ts rl1 of (oks, rl2) \<Rightarrow> (ok # oks, rl2)))"

section \<open>CircuitBreaker (utils/circuit-breaker)\<close>

datatype breaker_state = CLOSED | OPEN | HALF_OPEN

record CircuitBreakerOptions =
  failureThreshold :: int
  resetTimeout :: int
  halfOpenRequests :: "int option"

record CircuitBreaker =
  cb_options :: CircuitBreakerOptions
  failureCount :: int
  lastFailureTime :: "int option"
  state :: breaker_state
  halfOpenAttempts :: int

definition new_CircuitBreaker :: "CircuitBreakerOptions \<Rightarrow> CircuitBreaker" where
  "new_CircuitBreaker opts =
     \<lparr>cb_options = opts, failureCount = 0, lastFailureTime = None,
      state = CLOSED, halfOpenAttempts = 0\<rparr>"

text \<open>
  \<^verbatim>\<open>this.lastFailureTime && now - this.lastFailureTime > resetTimeout\<close>: a
  \<open>null\<close> and a \<open>0\<close> timestamp are both falsy.
\<close>

definition isOpen :: "int \<Rightarrow> CircuitBreaker \<Rightarrow> bool \<times> CircuitBreaker" where
  "isOpen now b =
     (if state b = OPEN then
        (if (case lastFailureTime b of
               None \<Rightarrow> False
             | Some t \<Rightarrow> t \<noteq> 0 \<and> now - t > resetTimeout (cb_options b))
         then (False, b\<lparr>state := HALF_OPEN, halfOpenAttempts := 0\<rparr>)
         else (True, b))
      else (False, b))"

definition recordSuccess :: "CircuitBreaker \<Rightarrow> CircuitBreaker" where
  "recordSuccess b =
     (if state b = HALF_OPEN then
        (let b1 = b\<lparr>halfOpenAttempts := halfOpenAttempts b + 1\<rparr>;
             requiredSuccesses =
               (case halfOpenRequests (cb_options b1) of
                  None \<Rightarrow> 1
                | Some n \<Rightarrow> if n = 0 then 1 else n)
         in if halfOpenAttempts b1 \<ge> requiredSuccesses
            then b1\<lparr>state := CLOSED, failureCount := 0, halfOpenAttempts := 0\<rparr>
            else b1)
      else if state b = CLOSED then b\<lparr>failureCount := max 0 (failureCount b - 1)\<rparr>
      else b)"

definition recordFailure :: "int \<Rightarrow> CircuitBreaker \<Rightarrow> CircuitBreaker" where
  "recordFailure now b =
     (let b1 = b\<lparr>failureCount := failureCount b + 1, lastFailureTime := Some now\<rparr>
      in if state b1 = HALF_OPEN then b1\<lparr>state := OPEN, halfOpenAttempts := 0\<rparr>
         else if failureCount b1 \<ge> failureThreshold (cb_options b1) then b1\<lparr>state := OPEN\<rparr>
         else b1)"

definition getState :: "CircuitBreaker \<Rightarrow> breaker_state" where
  "getState b = state b"

text \<open>The public methods of the class, as one step function on the breaker's fields.\<close>

datatype breaker_call = IsOpen int | RecordSuccess | RecordFailure int | GetState | GetStats

fun breaker_step :: "breaker_call \<Rightarrow> CircuitBreaker \<Rightarrow> CircuitBreaker" where
  "breaker_step (IsOpen now) b = snd (isOpen now b)"
| "breaker_step RecordSuccess b = recordSuccess b"
| "breaker_step (RecordFailure now) b = recordFailure now b"
| "breaker_step GetState b = b"
| "breaker_step GetStats b = b"

fun isOpen_calls :: "int list \<Rightarrow> CircuitBreaker \<Rightarrow> bool list \<times> CircuitBreaker" where
  "isOpen_calls [] b = ([], b)"
| "isOpen_calls (t # ts) b =
     (case isOpen t b of (r, b1) \<Rightarrow>
        (case isOpen_calls ts b1 of (rs, b2) \<Rightarrow> (r # rs, b2)))"

section \<open>Strings\<close>

text \<open>
  A JavaScript string is its list of UTF-16 code units. \<open>js\<close> turns an ASCII literal
  into that list.
\<close>

type_synonym js_string = "nat list"

definition js :: "string \<Rightarrow> js_string" where
  "js s = map of_char s"

primrec str_includes :: "js_string \<Rightarrow> js_string \<Rightarrow> bool" where
  "str_includes [] t = (t = [])"
| "str_includes (c # s) t = (prefix t (c # s) \<or> str_includes s t)"

definition startsWith :: "js_string \<Rightarrow> js_string \<Rightarrow> bool" where
  "startsWith s t = prefix t s"

section \<open>retry and isRetryableError (src/utils/retry.ts)\<close>

text \<open>
  An \<^verbatim>\<open>Error\<close> object with its \<open>message\<close> and its \<open>code\<close>. The code is whatever the
  thrower put there: nothing, a string or a number. What a \<^verbatim>\<open>throw\<close> delivers is such an
  object, or \<open>undefined\<close> when \<^verbatim>\<open>lastError\<close> was never assigned.
\<close>

datatype code_value = NoCode | StringCode js_string | NumberCode int

record js_error =
  message :: js_string
  code :: code_value

datatype thrown = Undefined | Error js_error

datatype backoff = Linear | Exponential

record 's RetryOptions =
  attempts :: int
  delay :: int
  backoff :: "backoff option"
  maxDelay :: "int option"
  onRetry :: "(js_error \<Rightarrow> int \<Rightarrow> 's \<Rightarrow> 's) option"
  retryCondition :: "(js_error \<Rightarrow> js_error + bool) option"

definition retry_delay :: "'s RetryOptions \<Rightarrow> int \<Rightarrow> int" where
  "retry_delay options attempt =
     (let cap = (case maxDelay options of None \<Rightarrow> 60000
                 | Some m \<Rightarrow> if m = 0 then 60000 else m)
      in case backoff options of
           Some Exponential \<Rightarrow> min (delay options * 2 ^ nat (attempt - 1)) cap
         | Some Linear \<Rightarrow> min (delay options * attempt) cap
         | None \<Rightarrow> delay options)"

text \<open>
  The \<^verbatim>\<open>for\<close> loop of \<open>retry\<close>, from a given \<open>attempt\<close> on. The operation \<open>fn\<close> and
  the timer \<open>sleep\<close> act on a state \<open>'s\<close>; \<open>fn\<close> returns its value or the error it threw,
  and so does \<open>retryCondition\<close>: what it throws inside the \<^verbatim>\<open>catch\<close> block leaves \<open>retry\<close>.
\<close>

function retry_from ::
  "(int \<Rightarrow> 's \<Rightarrow> 's) \<Rightarrow> ('s \<Rightarrow> (js_error + 'a) \<times> 's) \<Rightarrow> 's RetryOptions
     \<Rightarrow> int \<Rightarrow> thrown \<Rightarrow> 's \<Rightarrow> (thrown + 'a) \<times> 's" where
  "retry_from sleep fn options attempt lastError s =
     (if attempt \<le> attempts options then
        (case fn s of
           (Inr v, s1) \<Rightarrow> (Inr v, s1)
         | (Inl e, s1) \<Rightarrow>
             (case (case retryCondition options of None \<Rightarrow> Inr True | Some c \<Rightarrow> c e) of
                Inl thrownByCondition \<Rightarrow> (Inl (Error thrownByCondition), s1)
              | Inr retryable \<Rightarrow>
                  if \<not> retryable then (Inl (Error e), s1)
                  else if attempt = attempts options then (Inl (Error e), s1)
                  else (let s2 = (case onRetry options of None \<Rightarrow> s1
                                  | Some f \<Rightarrow> f e attempt s1)
                        in retry_from sleep fn options (attempt + 1) (Error e)
                             (sleep (retry_delay options attempt) s2))))
      else (Inl lastError, s))"
  by pat_completeness auto
termination
  by (relation "measure (\<lambda>(sleep, fn, options, attempt, lastError, s).
        nat (attempts options + 1 - attempt))") auto

declare retry_from.simps [simp del]

definition retry ::
  "(int \<Rightarrow> 's \<Rightarrow> 's) \<Rightarrow> ('s \<Rightarrow> (js_error + 'a) \<times> 's) \<Rightarrow> 's RetryOptions
     \<Rightarrow> 's \<Rightarrow> (thrown + 'a) \<times> 's" where
  "retry sleep fn options s = retry_from sleep fn options 1 Undefined s"

definition retryableErrors :: "js_string list" where
  "retryableErrors = map js
     [''TIMEOUT'', ''ETIMEDOUT'', ''ECONNRESET'', ''ECONNREFUSED'', ''NETWORK_ERROR'',
      ''RATE_LIMIT'', ''TEMPORARY_FAILURE'', ''429'', ''503'', ''504'']"

text \<open>
  \<^verbatim>\<open>(error as any).code || ''\<close>: no code, the empty string and 0 give the empty string; a
  non-zero number stays a number.
\<close>

definition errorCode_of :: "code_value \<Rightarrow> int + js_string" where
  "errorCode_of c =
     (case c of
        NoCode \<Rightarrow> Inr []
      | StringCode s \<Rightarrow> Inr s
      | NumberCode n \<Rightarrow> if n = 0 then Inr [] else Inl n)"

text \<open>The \<open>TypeError\<close> of calling \<open>includes\<close> on a number (the engine's wording).\<close>

definition includes_TypeError :: js_error where
  "includes_TypeError =
     \<lparr>message = js ''errorCode.includes is not a function'', code = NoCode\<rparr>"

text \<open>
  \<^verbatim>\<open>retryableErrors.some(type => errorMessage.includes(type) || errorCode.includes(type) ||
  errorCode === type)\<close>, entry by entry and disjunct by disjunct.
\<close>

fun retryableErrors_some :: "js_string \<Rightarrow> int + js_string \<Rightarrow> js_string list \<Rightarrow> js_error + bool" where
  "retryableErrors_some errorMessage errorCode [] = Inr False"
| "retryableErrors_some errorMessage errorCode (ty # rest) =
     (if str_includes errorMessage ty then Inr True
      else (case errorCode of
              Inl n \<Rightarrow> Inl includes_TypeError
            | Inr c \<Rightarrow>
                if str_includes c ty \<or> c = ty then Inr True
                else retryableErrors_some errorMessage errorCode rest))"

definition isRetryableError :: "js_error \<Rightarrow> js_error + bool" where
  "isRetryableError err =
     (let errorMessage = message err; errorCode = errorCode_of (code err)
      in retryableErrors_some errorMessage errorCode retryableErrors)"

text \<open>
  The classification as the specification words it: a code among the three network codes
  or the three HTTP codes, or a message containing one of three substrings.
\<close>

definition spec_retryable :: "js_error \<Rightarrow> bool" where
  "spec_retryable err =
     ((case code err of
         NoCode \<Rightarrow> False
       | StringCode c \<Rightarrow> c \<in> set (map js [''ETIMEDOUT'', ''ECONNRESET'', ''ECONNREFUSED'',
                                            ''429'', ''503'', ''504''])
       | NumberCode n \<Rightarrow> n \<in> set [429, 503, 504])
      \<or> list_ex (str_includes (message err))
           (map js [''TIMEOUT'', ''RATE_LIMIT'', ''TEMPORARY_FAILURE'']))"

section \<open>AnalyzerAgent (core/mastra/agents/analyzer.agent)\<close>

subsection \<open>Regular expressions and string methods the analyzer uses\<close>

text \<open>
  The case tables of the runtime are not part of the repository and are a parameter of
  every definition that folds case: \<open>Canonicalize\<close> is the canonicalisation of one code unit
  that a regular expression with the \<open>i\<close> flag (and without \<open>u\<close>) applies to pattern and
  subject alike, \<open>toLowerCase\<close> is \<^verbatim>\<open>String.prototype.toLowerCase\<close>.
\<close>

record case_tables =
  Canonicalize :: "nat \<Rightarrow> nat"
  toLowerCase :: "js_string \<Rightarrow> js_string"

text \<open>
  Tables for ASCII text, which also fold the Latin-1 letters whose two cases are 32 apart
  and leave every other code unit as it is. They serve to run the definitions on ASCII
  examples; no theorem about the analyzer depends on them.
\<close>

definition latin1_tables :: case_tables where
  "latin1_tables =
     \<lparr>Canonicalize =
        (\<lambda>c. if (97 \<le> c \<and> c \<le> 122) \<or> (224 \<le> c \<and> c \<le> 254 \<and> c \<noteq> 247) then c - 32 else c),
      toLowerCase =
        map (\<lambda>c. if (65 \<le> c \<and> c \<le> 90) \<or> (192 \<le> c \<and> c \<le> 222 \<and> c \<noteq> 215) then c + 32
                  else c)\<rparr>"

definition word_char :: "nat \<Rightarrow> bool" where
  "word_char c = ((48 \<le> c \<and> c \<le> 57) \<or> (65 \<le> c \<and> c \<le> 90) \<or> c = 95 \<or> (97 \<le> c \<and> c \<le> 122))"

definition white_space :: "nat \<Rightarrow> bool" where
  "white_space c =
     (c \<in> set [9, 10, 11, 12, 13, 32, 160, 5760, 8232, 8233, 8239, 8287, 12288, 65279]
      \<or> (8192 \<le> c \<and> c \<le> 8202))"

definition trim :: "js_string \<Rightarrow> js_string" where
  "trim s = rev (dropWhile white_space (rev (dropWhile white_space s)))"

definition substring :: "js_string \<Rightarrow> nat \<Rightarrow> nat \<Rightarrow> js_string" where
  "substring s a b =
     (let a1 = min a (length s); b1 = min b (length s);
          lo = min a1 b1; hi = max a1 b1
      in take (hi - lo) (drop lo s))"

text \<open>A literal pattern under the \<open>i\<close> flag, matched at the start of the subject.\<close>

fun ci_prefix :: "case_tables \<Rightarrow> js_string \<Rightarrow> js_string \<Rightarrow> bool" where
  "ci_prefix ct [] s = True"
| "ci_prefix ct (p # ps) [] = False"
| "ci_prefix ct (p # ps) (c # s) = (Canonicalize ct p = Canonicalize ct c \<and> ci_prefix ct ps s)"

text \<open>The first index at which a literal pattern matches under the \<open>i\<close> flag.\<close>

fun ci_search_from :: "case_tables \<Rightarrow> js_string \<Rightarrow> js_string \<Rightarrow> nat \<Rightarrow> nat option" where
  "ci_search_from ct pat [] i = (if pat = [] then Some i else None)"
| "ci_search_from ct pat (c # s) i =
     (if ci_prefix ct pat (c # s) then Some i else ci_search_from ct pat s (i + 1))"

definition ci_search :: "case_tables \<Rightarrow> js_string \<Rightarrow> js_string \<Rightarrow> nat option" where
  "ci_search ct pat s = ci_search_from ct pat s 0"

definition ci_includes :: "case_tables \<Rightarrow> js_string \<Rightarrow> js_string \<Rightarrow> bool" where
  "ci_includes ct s pat = (ci_search ct pat s \<noteq> None)"

text \<open>
  \<^verbatim>\<open>new RegExp(`\\b${escapeRegex(name)}\\b`, 'gi')\<close>: the escaped name is a literal,
  between two word boundaries. \<open>matchAll ct\<close> collects the match indices from left to right,
  resuming after each match (one unit further after an empty match).
\<close>

definition word_at :: "js_string \<Rightarrow> nat \<Rightarrow> bool" where
  "word_at text i = (i < length text \<and> word_char (text ! i))"

definition word_boundary :: "js_string \<Rightarrow> nat \<Rightarrow> bool" where
  "word_boundary text i = ((0 < i \<and> word_at text (i - 1)) \<noteq> word_at text i)"

definition word_match_at :: "case_tables \<Rightarrow> js_string \<Rightarrow> js_string \<Rightarrow> nat \<Rightarrow> bool" where
  "word_match_at ct name text i =
     (word_boundary text i \<and> ci_prefix ct name (drop i text) \<and> word_boundary text (i + length name))"

function matchAll_from :: "case_tables \<Rightarrow> js_string \<Rightarrow> js_string \<Rightarrow> nat \<Rightarrow> nat list" where
  "matchAll_from ct name text i =
     (if length text < i then []
      else if word_match_at ct name text i
      then i # matchAll_from ct name text (if name = [] then i + 1 else i + length name)
      else matchAll_from ct name text (i + 1))"
  by pat_completeness auto
termination
  by (relation "measure (\<lambda>(ct, name, text, i). length text + 1 - i)")
    (auto simp: neq_Nil_conv)

declare matchAll_from.simps [simp del]

definition matchAll :: "case_tables \<Rightarrow> js_string \<Rightarrow> js_string \<Rightarrow> nat list" where
  "matchAll ct name text = matchAll_from ct name text 0"

text \<open>
  Two patterns splice a name into the expression unescaped. A name without any syntax
  character (one of \<^verbatim>\<open>^ $ \ . * + ? ( ) [ ] { } |\<close>, listed by code unit) is a literal there; for any other name the pattern is outside this model
  (\<open>None\<close>).
\<close>

definition syntax_characters :: "js_string" where
  "syntax_characters = [94, 36, 92, 46, 42, 43, 63, 40, 41, 91, 93, 123, 125, 124]"

definition literal_pattern :: "js_string \<Rightarrow> bool" where
  "literal_pattern name = list_all (\<lambda>c. c \<notin> set syntax_characters) name"

text \<open>
  \<^verbatim>\<open>\s\<close> under the \<open>i\<close> flag: a code unit whose canonical form is that of a white-space
  code unit.
\<close>

definition white_space_units :: "nat list" where
  "white_space_units =
     [9, 10, 11, 12, 13, 32, 160, 5760] @ [8192 ..< 8203] @ [8232, 8233, 8239, 8287, 12288, 65279]"

definition ci_white_space :: "case_tables \<Rightarrow> nat \<Rightarrow> bool" where
  "ci_white_space ct c = list_ex (\<lambda>s. Canonicalize ct s = Canonicalize ct c) white_space_units"

text \<open>
  \<^verbatim>\<open>^${brand}\s+(is|are)\<close> with a literal brand: the brand at the start, then \<open>k \<ge> 1\<close>
  white-space units, then \<open>is\<close> or \<open>are\<close>, for some \<open>k\<close> up to the length of the white-space
  run.
\<close>

definition subject_match :: "case_tables \<Rightarrow> js_string \<Rightarrow> js_string \<Rightarrow> bool" where
  "subject_match ct brand context =
     (ci_prefix ct brand context \<and>
      (let rest = drop (length brand) context;
           n = length (takeWhile (ci_white_space ct) rest)
       in list_ex (\<lambda>k. ci_prefix ct (js ''is'') (drop k rest)
                       \<or> ci_prefix ct (js ''are'') (drop k rest)) [1 ..< Suc n]))"

subsection \<open>Data\<close>

datatype sentiment_label = Positive | Neutral | Negative

datatype relative_position = Beginning | Early | Middle | Late | End

record BrandMention =
  bm_brand :: js_string
  bm_count :: nat
  bm_positions :: "nat list"
  bm_contexts :: "js_string list"
  bm_sentiment :: sentiment_label
  bm_strength :: nat

record CompetitorMention =
  cm_competitor :: js_string
  cm_count :: nat
  cm_positions :: "nat list"
  cm_comparisonContext :: "js_string option"

record SentimentBreakdown =
  sb_positive :: rat
  sb_neutral :: rat
  sb_negative :: rat

record SentimentAnalysis =
  overall :: sentiment_label
  score :: rat
  breakdown :: SentimentBreakdown

record PositionAnalysis =
  averagePosition :: rat
  firstMentionPosition :: int
  lastMentionPosition :: int
  relativePosition :: relative_position

record VisibilityFactors =
  mentionCount :: nat
  positionScore :: nat
  sentimentScore :: nat
  competitorComparison :: nat

record VisibilityScore =
  vs_score :: nat
  factors :: VisibilityFactors

record Analysis =
  brandMentions :: "BrandMention list"
  competitorMentions :: "CompetitorMention list"
  sentiment :: SentimentAnalysis
  position :: PositionAnalysis
  visibility :: VisibilityScore
  recommendations :: "js_string list"

text \<open>The scrape result as the analyzer reads it: \<^verbatim>\<open>result.response || ''\<close>.\<close>

record ScrapeResult =
  response :: "js_string option"

record Client =
  client_id :: int
  client_name :: js_string
  brandNames :: "js_string list"
  competitorNames :: "js_string list option"

subsection \<open>Methods\<close>

definition extractContext :: "js_string \<Rightarrow> nat \<Rightarrow> nat \<Rightarrow> js_string" where
  "extractContext text pos windowSize =
     (let start = nat (max 0 (int pos - int windowSize));
          end' = min (length text) (pos + windowSize)
      in trim (substring text start end'))"

definition positiveWords :: "js_string list" where
  "positiveWords =
     map js [''best'', ''excellent'', ''great'', ''recommended'', ''top'', ''leading''] @
     [[26368, 39640], [20778, 12428], [12362, 12377, 12377, 12417], [20154, 27671],
      [20449, 38972]]"

definition negativeWords :: "js_string list" where
  "negativeWords =
     map js [''poor'', ''bad'', ''worst'', ''avoid'', ''problem'', ''issue''] @
     [[21839, 38988], [24746, 12356], [36991, 12369, 12427], [27424, 28857]]"

definition analyzeMentionSentiment :: "case_tables \<Rightarrow> js_string list \<Rightarrow> sentiment_label" where
  "analyzeMentionSentiment ct contexts =
     (let positiveCount =
            sum_list (map (\<lambda>context. length (filter (str_includes (toLowerCase ct context)) positiveWords))
                        contexts);
          negativeCount =
            sum_list (map (\<lambda>context. length (filter (str_includes (toLowerCase ct context)) negativeWords))
                        contexts)
      in if (of_nat positiveCount :: rat) > of_nat negativeCount * (3 / 2) then Positive
         else if (of_nat negativeCount :: rat) > of_nat positiveCount * (3 / 2) then Negative
         else Neutral)"

definition strong_endorsement :: "case_tables \<Rightarrow> js_string \<Rightarrow> bool" where
  "strong_endorsement ct context =
     list_ex (ci_includes ct context)
       (map js [''highly recommend'', ''strongly recommend'', ''best choice'', ''top choice''])"

definition comparison_win :: "case_tables \<Rightarrow> js_string \<Rightarrow> bool" where
  "comparison_win ct context =
     list_ex (ci_includes ct context) (map js [''better than'', ''superior to'', ''outperforms''])"

text \<open>
  \<^verbatim>\<open>context.startsWith(brand) || context.match(new RegExp(`^${brand}\\s+(is|are)`, 'i'))\<close>:
  the expression is only built when \<open>startsWith\<close> fails.
\<close>

definition primary_subject :: "case_tables \<Rightarrow> js_string \<Rightarrow> js_string \<Rightarrow> bool option" where
  "primary_subject ct context brand =
     (if startsWith context brand then Some True
      else if literal_pattern brand then Some (subject_match ct brand context)
      else None)"

fun calculateMentionStrength_loop :: "case_tables \<Rightarrow> js_string list \<Rightarrow> js_string \<Rightarrow> nat \<Rightarrow> nat option" where
  "calculateMentionStrength_loop ct [] brand strength = Some strength"
| "calculateMentionStrength_loop ct (context # rest) brand strength =
     (let s1 = (if strong_endorsement ct context then strength + 10 else strength)
      in case primary_subject ct context brand of
           None \<Rightarrow> None
         | Some subj \<Rightarrow>
             (let s2 = (if subj then s1 + 5 else s1);
                  s3 = (if comparison_win ct context then s2 + 5 else s2)
              in calculateMentionStrength_loop ct rest brand s3))"

definition calculateMentionStrength :: "case_tables \<Rightarrow> js_string list \<Rightarrow> js_string \<Rightarrow> nat option" where
  "calculateMentionStrength ct contexts brand =
     map_option (\<lambda>strength. min strength 100) (calculateMentionStrength_loop ct contexts brand 50)"

text \<open>
  The strength as the specification words it: each of the three bonuses at most once,
  when some context earns it.
\<close>

definition spec_mention_strength :: "case_tables \<Rightarrow> js_string list \<Rightarrow> js_string \<Rightarrow> nat" where
  "spec_mention_strength ct contexts brand =
     min 100
       (50 + (if list_ex (strong_endorsement ct) contexts then 10 else 0)
           + (if list_ex (\<lambda>context. startsWith context brand \<or> subject_match ct brand context) contexts
              then 5 else 0)
           + (if list_ex (comparison_win ct) contexts then 5 else 0))"

fun analyzeBrandMentions_loop ::
  "case_tables \<Rightarrow> js_string \<Rightarrow> js_string list \<Rightarrow> BrandMention list \<Rightarrow> BrandMention list option" where
  "analyzeBrandMentions_loop ct text [] mentions = Some mentions"
| "analyzeBrandMentions_loop ct text (brand # rest) mentions =
     (let matches = matchAll ct brand text
      in if length matches > 0 then
           (let positions = matches;
                contexts = map (\<lambda>index. extractContext text index 150) matches
            in case calculateMentionStrength ct contexts brand of
                 None \<Rightarrow> None
               | Some strength \<Rightarrow>
                   analyzeBrandMentions_loop ct text rest
                     (mentions @
                      [\<lparr>bm_brand = brand, bm_count = length matches, bm_positions = positions,
                        bm_contexts = contexts, bm_sentiment = analyzeMentionSentiment ct contexts,
                        bm_strength = strength\<rparr>]))
         else analyzeBrandMentions_loop ct text rest mentions)"

definition analyzeBrandMentions :: "case_tables \<Rightarrow> ScrapeResult \<Rightarrow> js_string list \<Rightarrow> BrandMention list option" where
  "analyzeBrandMentions ct result names =
     (let text = (case response result of None \<Rightarrow> [] | Some r \<Rightarrow> r)
      in analyzeBrandMentions_loop ct text names [])"

definition first_index :: "nat option \<Rightarrow> nat option \<Rightarrow> nat option" where
  "first_index a b =
     (case a of None \<Rightarrow> b
      | Some i \<Rightarrow> (case b of None \<Rightarrow> Some i | Some j \<Rightarrow> Some (min i j)))"

text \<open>
  The four comparison patterns, tried in order; \<^verbatim>\<open>vs\\.?\<close> is \<open>vs\<close> with an
  optional full stop. The outer \<open>None\<close> is a competitor name that is not a literal
  pattern, the inner one is \<open>undefined\<close>.
\<close>

definition findComparisonContext :: "case_tables \<Rightarrow> js_string \<Rightarrow> js_string \<Rightarrow> js_string option option" where
  "findComparisonContext ct text competitor =
     (if \<not> literal_pattern competitor then None
      else Some
        (case ci_search ct (js ''compared to '' @ competitor) text of
           Some i \<Rightarrow> Some (extractContext text i 200)
         | None \<Rightarrow>
        (case ci_search ct (js ''versus '' @ competitor) text of
           Some i \<Rightarrow> Some (extractContext text i 200)
         | None \<Rightarrow>
        (case first_index (ci_search ct (js ''vs. '' @ competitor) text)
                          (ci_search ct (js ''vs '' @ competitor) text) of
           Some i \<Rightarrow> Some (extractContext text i 200)
         | None \<Rightarrow>
        (case ci_search ct (competitor @ js '' vs'') text of
           Some i \<Rightarrow> Some (extractContext text i 200)
         | None \<Rightarrow> None)))))"

fun analyzeCompetitorMentions_loop ::
  "case_tables \<Rightarrow> js_string \<Rightarrow> js_string list \<Rightarrow> CompetitorMention list \<Rightarrow> CompetitorMention list option" where
  "analyzeCompetitorMentions_loop ct text [] mentions = Some mentions"
| "analyzeCompetitorMentions_loop ct text (competitor # rest) mentions =
     (let matches = matchAll ct competitor text
      in if length matches > 0 then
           (case findComparisonContext ct text competitor of
              None \<Rightarrow> None
            | Some comparison \<Rightarrow>
                analyzeCompetitorMentions_loop ct text rest
                  (mentions @
                   [\<lparr>cm_competitor = competitor, cm_count = length matches,
                     cm_positions = matches, cm_comparisonContext = comparison\<rparr>]))
         else analyzeCompetitorMentions_loop ct text rest mentions)"

definition analyzeCompetitorMentions ::
  "case_tables \<Rightarrow> ScrapeResult \<Rightarrow> js_string list \<Rightarrow> CompetitorMention list option" where
  "analyzeCompetitorMentions ct result names =
     (let text = (case response result of None \<Rightarrow> [] | Some r \<Rightarrow> r)
      in analyzeCompetitorMentions_loop ct text names [])"

definition analyzeSentiment :: "ScrapeResult \<Rightarrow> BrandMention list \<Rightarrow> SentimentAnalysis" where
  "analyzeSentiment result mentions =
     (let (positive, neutral, negative) =
            foldl (\<lambda>(positive, neutral, negative) mention.
                     case bm_sentiment mention of
                       Positive \<Rightarrow> (positive + bm_count mention, neutral, negative)
                     | Negative \<Rightarrow> (positive, neutral, negative + bm_count mention)
                     | Neutral \<Rightarrow> (positive, neutral + bm_count mention, negative))
                  (0, 0, 0) mentions;
          total = positive + neutral + negative
      in if total = 0 then
           \<lparr>overall = Neutral, score = 0,
            breakdown = \<lparr>sb_positive = 0, sb_neutral = 0, sb_negative = 0\<rparr>\<rparr>
         else
           (let score = (of_nat positive - of_nat negative) / of_nat total
            in \<lparr>overall = (if score > 3 / 10 then Positive
                           else if score < - (3 / 10) then Negative else Neutral),
                score = score,
                breakdown = \<lparr>sb_positive = of_nat positive / of_nat total,
                             sb_neutral = of_nat neutral / of_nat total,
                             sb_negative = of_nat negative / of_nat total\<rparr>\<rparr>))"

definition analyzePosition :: "BrandMention list \<Rightarrow> PositionAnalysis" where
  "analyzePosition mentions =
     (if length mentions = 0 \<or> list_all (\<lambda>m. length (bm_positions m) = 0) mentions then
        \<lparr>averagePosition = - 1, firstMentionPosition = - 1, lastMentionPosition = - 1,
         relativePosition = End\<rparr>
      else
        (let allPositions = sort (concat (map bm_positions mentions));
             average = of_nat (foldl (+) 0 allPositions) / of_nat (length allPositions);
             relativePos = average / 5000
         in \<lparr>averagePosition = average,
             firstMentionPosition = int (Min (set allPositions)),
             lastMentionPosition = int (Max (set allPositions)),
             relativePosition =
               (if relativePos < 2 / 10 then Beginning
                else if relativePos < 4 / 10 then Early
                else if relativePos < 6 / 10 then Middle
                else if relativePos < 8 / 10 then Late
                else End)\<rparr>))"

definition calculateVisibilityScore ::
  "BrandMention list \<Rightarrow> CompetitorMention list \<Rightarrow> SentimentAnalysis \<Rightarrow> PositionAnalysis
     \<Rightarrow> VisibilityScore" where
  "calculateVisibilityScore bms cms sent pos =
     (let totalBrandMentions = foldl (\<lambda>sum m. sum + bm_count m) 0 bms;
          totalCompetitorMentions = foldl (\<lambda>sum m. sum + cm_count m) 0 cms;
          mentionCount' = min (totalBrandMentions * 5) 25;
          positionScore' =
            (if relativePosition pos = Beginning then 25
             else if relativePosition pos = Early then 20
             else if relativePosition pos = Middle then 15
             else if relativePosition pos = Late then 10
             else 5);
          sentimentScore' =
            (if overall sent = Positive then 25 else if overall sent = Neutral then 15 else 5);
          competitorComparison' =
            (if totalBrandMentions > totalCompetitorMentions then 25
             else if totalBrandMentions = totalCompetitorMentions then 15 else 5)
      in \<lparr>vs_score = mentionCount' + positionScore' + sentimentScore' + competitorComparison',
          factors = \<lparr>mentionCount = mentionCount', positionScore = positionScore',
                     sentimentScore = sentimentScore',
                     competitorComparison = competitorComparison'\<rparr>\<rparr>)"

definition generateRecommendations ::
  "BrandMention list \<Rightarrow> CompetitorMention list \<Rightarrow> SentimentAnalysis \<Rightarrow> PositionAnalysis
     \<Rightarrow> VisibilityScore \<Rightarrow> js_string list" where
  "generateRecommendations bms cms sent pos vis =
     (let r1 = (if vs_score vis < 30
                then [js ''Increase brand presence through more comprehensive content'',
                      js ''Consider creating dedicated FAQ sections about your brand'']
                else []);
          r2 = (if relativePosition pos = Late \<or> relativePosition pos = End
                then [js ''Optimize content to appear earlier in AI responses'',
                      js ''Focus on primary keywords and main value propositions'']
                else []);
          r3 = (if overall sent = Negative
                then [js ''Address negative perceptions through improved messaging'',
                      js ''Create positive case studies and success stories'']
                else []);
          totalBrandMentions = foldl (\<lambda>sum m. sum + bm_count m) 0 bms;
          totalCompetitorMentions = foldl (\<lambda>sum m. sum + cm_count m) 0 cms;
          r4 = (if totalCompetitorMentions > totalBrandMentions
                then [js ''Strengthen competitive positioning'',
                      js ''Highlight unique differentiators more prominently'']
                else []);
          r5 = (if length bms = 0
                then [js ''Critical: No brand mentions detected'',
                      js ''Urgent need for brand awareness campaign'']
                else [])
      in r1 @ r2 @ r3 @ r4 @ r5)"

datatype platform = chatgpt | perplexity | gemini | claude | google_ai

record AnalyzerInput =
  ai_result :: ScrapeResult
  ai_client :: Client
  ai_platform :: platform

record AnalyzerOutput =
  ao_clientId :: int
  ao_platform :: platform
  analysis :: Analysis
  ao_timestamp :: int

text \<open>
  \<open>AnalyzerAgent.execute\<close>, with the clock reading for the timestamp. \<open>None\<close>: a name
  reached one of the two unescaped patterns with a syntax character in it.
\<close>

definition AnalyzerAgent_execute :: "case_tables \<Rightarrow> int \<Rightarrow> AnalyzerInput \<Rightarrow> AnalyzerOutput option" where
  "AnalyzerAgent_execute ct now input =
     (case analyzeBrandMentions ct (ai_result input) (brandNames (ai_client input)) of
        None \<Rightarrow> None
      | Some bms \<Rightarrow>
     (case analyzeCompetitorMentions ct (ai_result input)
             (case competitorNames (ai_client input) of None \<Rightarrow> [] | Some ns \<Rightarrow> ns) of
        None \<Rightarrow> None
      | Some cms \<Rightarrow>
          (let sent = analyzeSentiment (ai_result input) bms;
               pos = analyzePosition bms;
               vis = calculateVisibilityScore bms cms sent pos;
               recs = generateRecommendations bms cms sent pos vis
           in Some \<lparr>ao_clientId = client_id (ai_client input),
                    ao_platform = ai_platform input,
                    analysis = \<lparr>brandMentions = bms, competitorMentions = cms,
                                 sentiment = sent, position = pos, visibility = vis,
                                 recommendations = recs\<rparr>,
                    ao_timestamp = now\<rparr>)))"

section \<open>monitoringWorkflow (src/core/mastra/workflows/monitoring.workflow.ts)\<close>

datatype priority = High | Medium | Low

text \<open>The input before and after \<open>MonitoringInputSchema.parse\<close>, which fills the defaults.\<close>

record MonitoringInput =
  clientIds :: "int list option"
  platforms :: "platform list option"
  priority :: "priority option"
  retryOnFailure :: "bool option"
  maxRetries :: "int option"
  timeout :: "int option"

record ValidatedInput =
  v_clientIds :: "int list option"
  v_platforms :: "platform list option"
  v_priority :: priority
  v_retryOnFailure :: bool
  v_maxRetries :: int
  v_timeout :: int

definition MonitoringInputSchema_parse :: "MonitoringInput \<Rightarrow> js_error + ValidatedInput" where
  "MonitoringInputSchema_parse raw =
     (let retries = (case maxRetries raw of None \<Rightarrow> 3 | Some n \<Rightarrow> n);
          ms = (case timeout raw of None \<Rightarrow> 30000 | Some n \<Rightarrow> n)
      in if retries < 0 \<or> 5 < retries \<or> ms < 1000 \<or> 300000 < ms
         then Inl \<lparr>message = js ''ZodError'', code = NoCode\<rparr>
         else Inr \<lparr>v_clientIds = clientIds raw, v_platforms = platforms raw,
                   v_priority = (case priority raw of None \<Rightarrow> Medium | Some p \<Rightarrow> p),
                   v_retryOnFailure = (case retryOnFailure raw of None \<Rightarrow> True | Some b \<Rightarrow> b),
                   v_maxRetries = retries, v_timeout = ms\<rparr>)"

text \<open>An entry of the \<open>errors\<close> array; the entry of a rejected client has no client and no platform.\<close>

record ErrorEntry =
  e_clientId :: "int option"
  e_platform :: "platform option"
  e_error :: js_string
  e_resetTime :: "int option"
  e_timestamp :: int

text \<open>
  An entry of \<open>clientResults\<close>: \<^verbatim>\<open>{platform, success: true, data: analysis, raw: result}\<close>,
  \<^verbatim>\<open>{platform, success: true, data: result}\<close> or \<^verbatim>\<open>{platform, success: false, error}\<close>.
\<close>

datatype ('a, 'r) platform_result =
    Analyzed platform 'a 'r
  | Unanalyzed platform 'r
  | Failed platform js_string

record ('a, 'r) ClientResult =
  cr_clientId :: int
  cr_clientName :: js_string
  cr_results :: "('a, 'r) platform_result list"
  cr_timestamp :: int

text \<open>
  The state the workflow works on: the two module-level tables (\<open>circuitBreakers\<close>, keyed
  by client id and platform as the string \<^verbatim>\<open>`${client.id}-${platform}`\<close> is, and
  \<open>rateLimiters\<close>), the two arrays of the running \<open>execute\<close>, and two counters of what
  has been asked of the outside so far: clock readings and scrape invocations.
\<close>

record ('a, 'r) world =
  circuitBreakers :: "(int \<times> platform) \<rightharpoonup> CircuitBreaker"
  rateLimiters :: "platform \<Rightarrow> RateLimiter"
  errors :: "ErrorEntry list"
  results :: "('a, 'r) ClientResult list"
  clock_reads :: nat
  scrape_calls :: nat

text \<open>
  What the workflow is given: the clock (its n-th reading), the client repository, and the
  two agents of \<^verbatim>\<open>agents.get\<close>, each possibly absent. The scraper's answer may depend on
  how many invocations came before; both agents return their value or the error they throw.
  \<open>schedule\<close> is the runtime's choice among the waiting tasks of a batch.
\<close>

record ('a, 'r) env =
  clock :: "nat \<Rightarrow> int"
  getClientsForMonitoring :: "int list \<Rightarrow> js_error + Client list"
  findActive :: "js_error + Client list"
  scraper :: "(nat \<Rightarrow> platform \<Rightarrow> Client \<Rightarrow> int \<Rightarrow> js_error + 'r) option"
  analyzer :: "('r \<Rightarrow> Client \<Rightarrow> platform \<Rightarrow> js_error + 'a) option"
  schedule :: "nat \<Rightarrow> nat \<Rightarrow> nat"

definition Date_now :: "('a, 'r) env \<Rightarrow> ('a, 'r) world \<Rightarrow> int \<times> ('a, 'r) world" where
  "Date_now env w = (clock env (clock_reads w), w\<lparr>clock_reads := Suc (clock_reads w)\<rparr>)"

definition breaker_options :: CircuitBreakerOptions where
  "breaker_options = \<lparr>failureThreshold = 5, resetTimeout = 60000, halfOpenRequests = Some 2\<rparr>"

definition get_breaker :: "('a, 'r) world \<Rightarrow> int \<times> platform \<Rightarrow> CircuitBreaker" where
  "get_breaker w breakerKey =
     (case circuitBreakers w breakerKey of
        None \<Rightarrow> new_CircuitBreaker breaker_options
      | Some b \<Rightarrow> b)"

definition set_breaker ::
  "('a, 'r) world \<Rightarrow> int \<times> platform \<Rightarrow> CircuitBreaker \<Rightarrow> ('a, 'r) world" where
  "set_breaker w breakerKey b = w\<lparr>circuitBreakers := (circuitBreakers w)(breakerKey \<mapsto> b)\<rparr>"

text \<open>\<open>breaker.isOpen()\<close> on the breaker of the key, created first if absent; the clock is
  read only in state OPEN.\<close>

definition breaker_isOpen ::
  "('a, 'r) env \<Rightarrow> int \<times> platform \<Rightarrow> ('a, 'r) world \<Rightarrow> bool \<times> ('a, 'r) world" where
  "breaker_isOpen env breakerKey w =
     (let b = get_breaker w breakerKey
      in if state b = OPEN then
           (case Date_now env w of (t, w1) \<Rightarrow>
              (case isOpen t b of (r, b1) \<Rightarrow> (r, set_breaker w1 breakerKey b1)))
         else (False, set_breaker w breakerKey b))"

definition limiter_tryAcquire ::
  "('a, 'r) env \<Rightarrow> platform \<Rightarrow> ('a, 'r) world \<Rightarrow> bool \<times> ('a, 'r) world" where
  "limiter_tryAcquire env p w =
     (case Date_now env w of (t, w1) \<Rightarrow>
        (case tryAcquire t (rateLimiters w1 p) of (ok, rl) \<Rightarrow>
           (ok, w1\<lparr>rateLimiters := (rateLimiters w1)(p := rl)\<rparr>)))"

definition limiter_getResetTime ::
  "('a, 'r) env \<Rightarrow> platform \<Rightarrow> ('a, 'r) world \<Rightarrow> int \<times> ('a, 'r) world" where
  "limiter_getResetTime env p w =
     (if length (requests (rateLimiters w p)) = 0 then (0, w)
      else (case Date_now env w of (t, w1) \<Rightarrow> (getResetTime t (rateLimiters w p), w1)))"

text \<open>The operation handed to \<open>retry\<close>: one call of the scraper agent, if there is one.\<close>

definition scrape_once ::
  "('a, 'r) env \<Rightarrow> ValidatedInput \<Rightarrow> Client \<Rightarrow> platform \<Rightarrow> ('a, 'r) world
     \<Rightarrow> (js_error + 'r) \<times> ('a, 'r) world" where
  "scrape_once env input client p w =
     (case scraper env of
        None \<Rightarrow> (Inl \<lparr>message = js ''Scraper agent not found'', code = NoCode\<rparr>, w)
      | Some scraperAgent \<Rightarrow>
          (scraperAgent (scrape_calls w) p client (v_timeout input),
           w\<lparr>scrape_calls := Suc (scrape_calls w)\<rparr>))"

definition workflow_retry_options :: "ValidatedInput \<Rightarrow> ('a, 'r) world RetryOptions" where
  "workflow_retry_options input =
     \<lparr>attempts = v_maxRetries input, delay = 2000, backoff = Some Exponential,
      maxDelay = Some 30000, onRetry = Some (\<lambda>e attempt w. w),
      retryCondition = Some isRetryableError\<rparr>"

text \<open>The \<open>TypeError\<close> of reading \<open>message\<close> off \<open>undefined\<close> (the engine's wording).\<close>

definition undefined_message_TypeError :: js_error where
  "undefined_message_TypeError =
     \<lparr>message = js ''Cannot read properties of undefined (reading '' @ [39] @ js ''message''
                  @ [39] @ js '')'',
      code = NoCode\<rparr>"

text \<open>
  The \<^verbatim>\<open>catch (error: any)\<close> block around scraping and analysis. Reading
  \<^verbatim>\<open>error.message\<close> off \<open>undefined\<close> throws out of the block, after \<open>recordFailure\<close>.
\<close>

definition scrape_catch ::
  "('a, 'r) env \<Rightarrow> Client \<Rightarrow> platform \<Rightarrow> thrown \<Rightarrow> ('a, 'r) platform_result list
     \<Rightarrow> ('a, 'r) world \<Rightarrow> (thrown + ('a, 'r) platform_result list) \<times> ('a, 'r) world" where
  "scrape_catch env client p err clientResults w =
     (let breakerKey = (client_id client, p)
      in case Date_now env w of (t, w1) \<Rightarrow>
           (let w2 = set_breaker w1 breakerKey (recordFailure t (get_breaker w1 breakerKey))
            in case err of
                 Undefined \<Rightarrow> (Inl (Error undefined_message_TypeError), w2)
               | Error e \<Rightarrow>
                   (case Date_now env w2 of (t2, w3) \<Rightarrow>
                      (Inr (clientResults @ [Failed p (message e)]),
                       w3\<lparr>errors := errors w3 @
                            [\<lparr>e_clientId = Some (client_id client), e_platform = Some p,
                              e_error = message e, e_resetTime = None,
                              e_timestamp = t2\<rparr>]\<rparr>))))"

text \<open>The body of \<^verbatim>\<open>for (const platform of platforms)\<close>, for one platform.\<close>

definition process_platform ::
  "('a, 'r) env \<Rightarrow> ValidatedInput \<Rightarrow> Client \<Rightarrow> platform \<Rightarrow> ('a, 'r) platform_result list
     \<Rightarrow> ('a, 'r) world \<Rightarrow> (thrown + ('a, 'r) platform_result list) \<times> ('a, 'r) world" where
  "process_platform env input client p clientResults w =
     (let breakerKey = (client_id client, p)
      in case breaker_isOpen env breakerKey w of
           (True, w1) \<Rightarrow>
             (case Date_now env w1 of (t, w2) \<Rightarrow>
                (Inr clientResults,
                 w2\<lparr>errors := errors w2 @
                      [\<lparr>e_clientId = Some (client_id client), e_platform = Some p,
                        e_error = js ''Circuit breaker open'', e_resetTime = None,
                        e_timestamp = t\<rparr>]\<rparr>))
         | (False, w1) \<Rightarrow>
             (case limiter_tryAcquire env p w1 of
                (False, w2) \<Rightarrow>
                  (case limiter_getResetTime env p w2 of (resetTime, w3) \<Rightarrow>
                     (case Date_now env w3 of (t, w4) \<Rightarrow>
                        (Inr clientResults,
                         w4\<lparr>errors := errors w4 @
                              [\<lparr>e_clientId = Some (client_id client), e_platform = Some p,
                                e_error = js ''Rate limit exceeded'',
                                e_resetTime = Some resetTime, e_timestamp = t\<rparr>]\<rparr>)))
              | (True, w2) \<Rightarrow>
                  (case retry (\<lambda>ms w. w) (scrape_once env input client p)
                          (workflow_retry_options input) w2 of
                     (Inl err, w3) \<Rightarrow> scrape_catch env client p err clientResults w3
                   | (Inr result, w3) \<Rightarrow>
                       (let w4 = set_breaker w3 breakerKey
                                   (recordSuccess (get_breaker w3 breakerKey))
                        in case analyzer env of
                             None \<Rightarrow> (Inr (clientResults @ [Unanalyzed p result]), w4)
                           | Some analyzerAgent \<Rightarrow>
                               (case analyzerAgent result client p of
                                  Inl e \<Rightarrow> scrape_catch env client p (Error e) clientResults w4
                                | Inr analysed \<Rightarrow>
                                    (Inr (clientResults @ [Analyzed p analysed result]),
                                     w4))))))"

fun process_platforms ::
  "('a, 'r) env \<Rightarrow> ValidatedInput \<Rightarrow> Client \<Rightarrow> platform list
     \<Rightarrow> ('a, 'r) platform_result list \<Rightarrow> ('a, 'r) world
     \<Rightarrow> (thrown + ('a, 'r) platform_result list) \<times> ('a, 'r) world" where
  "process_platforms env input client [] clientResults w = (Inr clientResults, w)"
| "process_platforms env input client (p # rest) clientResults w =
     (case process_platform env input client p clientResults w of
        (Inl err, w1) \<Rightarrow> (Inl err, w1)
      | (Inr clientResults1, w1) \<Rightarrow> process_platforms env input client rest clientResults1 w1)"

text \<open>
  The async function of one client, run from its start to its end with no other task in
  between: fulfilled with its result object, or rejected.
\<close>

definition process_client ::
  "('a, 'r) env \<Rightarrow> ValidatedInput \<Rightarrow> platform list \<Rightarrow> Client \<Rightarrow> ('a, 'r) world
     \<Rightarrow> (thrown + ('a, 'r) ClientResult) \<times> ('a, 'r) world" where
  "process_client env input ps client w =
     (case process_platforms env input client ps [] w of
        (Inl err, w1) \<Rightarrow> (Inl err, w1)
      | (Inr clientResults, w1) \<Rightarrow>
          (case Date_now env w1 of (t, w2) \<Rightarrow>
             (Inr \<lparr>cr_clientId = client_id client, cr_clientName = client_name client,
                   cr_results = clientResults, cr_timestamp = t\<rparr>, w2)))"

subsection \<open>The clients of a batch, interleaved at their awaits\<close>

text \<open>
  \<^verbatim>\<open>batch.map(async (client) => ...)\<close> starts the task of every client of the batch, and
  \<^verbatim>\<open>Promise.allSettled\<close> waits for all of them. A task runs until its next \<^verbatim>\<open>await\<close>,
  where another task may go on. What a task waits for:
  \<^item> \<open>Acquire\<close>: \<^verbatim>\<open>await rateLimiter.tryAcquire()\<close>, whose body has run and answered;
  \<^item> \<open>Scrape\<close>: \<^verbatim>\<open>await fn()\<close> of the given attempt of \<open>retry\<close>, the scraper having been
    invoked, with what it will answer;
  \<^item> \<open>Sleep\<close>: the \<^verbatim>\<open>setTimeout\<close> after the failed attempt of that number, with its error;
  \<^item> \<open>Rejected\<close>: \<^verbatim>\<open>await retry(...)\<close> where \<open>retry\<close> threw without an attempt;
  \<^item> \<open>Analysis\<close>: \<^verbatim>\<open>await analyzerAgent.execute(...)\<close>, with what it will answer.
  Awaits between which the task touches no state are taken together.
\<close>

datatype ('a, 'r) awaited =
    Acquire bool
  | Scrape int "js_error + 'r"
  | Sleep int js_error
  | Rejected thrown
  | Analysis 'r "js_error + 'a"

record ('a, 'r) task =
  t_client :: Client
  t_platform :: platform
  t_rest :: "platform list"
  t_results :: "('a, 'r) platform_result list"
  t_awaited :: "('a, 'r) awaited"

datatype ('a, 'r) task_state =
    Waiting "('a, 'r) task"
  | Settled "thrown + ('a, 'r) ClientResult"

text \<open>
  From the head of the platform loop to the first await, or to the end of the function.
  A platform whose breaker is open is passed without an await.
\<close>

fun loop_head ::
  "('a, 'r) env \<Rightarrow> Client \<Rightarrow> platform list \<Rightarrow> ('a, 'r) platform_result list
     \<Rightarrow> ('a, 'r) world \<Rightarrow> ('a, 'r) task_state \<times> ('a, 'r) world" where
  "loop_head env client [] clientResults w =
     (case Date_now env w of (t, w1) \<Rightarrow>
        (Settled (Inr \<lparr>cr_clientId = client_id client, cr_clientName = client_name client,
                      cr_results = clientResults, cr_timestamp = t\<rparr>), w1))"
| "loop_head env client (p # rest) clientResults w =
     (case breaker_isOpen env (client_id client, p) w of
        (True, w1) \<Rightarrow>
          (case Date_now env w1 of (t, w2) \<Rightarrow>
             loop_head env client rest clientResults
               (w2\<lparr>errors := errors w2 @
                    [\<lparr>e_clientId = Some (client_id client), e_platform = Some p,
                      e_error = js ''Circuit breaker open'', e_resetTime = None,
                      e_timestamp = t\<rparr>]\<rparr>))
      | (False, w1) \<Rightarrow>
          (case limiter_tryAcquire env p w1 of (ok, w2) \<Rightarrow>
             (Waiting \<lparr>t_client = client, t_platform = p, t_rest = rest,
                       t_results = clientResults, t_awaited = Acquire ok\<rparr>, w2)))"

text \<open>The \<^verbatim>\<open>catch\<close> block, then the next platform unless the block itself threw.\<close>

definition after_catch ::
  "('a, 'r) env \<Rightarrow> Client \<Rightarrow> platform \<Rightarrow> platform list \<Rightarrow> thrown
     \<Rightarrow> ('a, 'r) platform_result list \<Rightarrow> ('a, 'r) world
     \<Rightarrow> ('a, 'r) task_state \<times> ('a, 'r) world" where
  "after_catch env client p rest err clientResults w =
     (case scrape_catch env client p err clientResults w of
        (Inl thrownByCatch, w1) \<Rightarrow> (Settled (Inl thrownByCatch), w1)
      | (Inr clientResults1, w1) \<Rightarrow> loop_head env client rest clientResults1 w1)"

text \<open>The head of the \<^verbatim>\<open>for\<close> loop of \<open>retry\<close>: the next call of the scraper, or the throw
  after the loop.\<close>

definition start_attempt ::
  "('a, 'r) env \<Rightarrow> ValidatedInput \<Rightarrow> Client \<Rightarrow> platform \<Rightarrow> platform list
     \<Rightarrow> ('a, 'r) platform_result list \<Rightarrow> int \<Rightarrow> thrown \<Rightarrow> ('a, 'r) world
     \<Rightarrow> ('a, 'r) task_state \<times> ('a, 'r) world" where
  "start_attempt env input client p rest clientResults attempt lastError w =
     (if attempt \<le> v_maxRetries input then
        (case scrape_once env input client p w of (answer, w1) \<Rightarrow>
           (Waiting \<lparr>t_client = client, t_platform = p, t_rest = rest,
                     t_results = clientResults, t_awaited = Scrape attempt answer\<rparr>, w1))
      else (Waiting \<lparr>t_client = client, t_platform = p, t_rest = rest,
                      t_results = clientResults, t_awaited = Rejected lastError\<rparr>, w))"

text \<open>A waiting task goes on, up to its next await or its end.\<close>

definition resume ::
  "('a, 'r) env \<Rightarrow> ValidatedInput \<Rightarrow> ('a, 'r) task \<Rightarrow> ('a, 'r) world
     \<Rightarrow> ('a, 'r) task_state \<times> ('a, 'r) world" where
  "resume env input t w =
     (let client = t_client t; p = t_platform t; rest = t_rest t; clientResults = t_results t
      in case t_awaited t of
           Acquire ok \<Rightarrow>
             if ok then start_attempt env input client p rest clientResults 1 Undefined w
             else (case limiter_getResetTime env p w of (resetTime, w1) \<Rightarrow>
                     (case Date_now env w1 of (ts, w2) \<Rightarrow>
                        loop_head env client rest clientResults
                          (w2\<lparr>errors := errors w2 @
                               [\<lparr>e_clientId = Some (client_id client), e_platform = Some p,
                                 e_error = js ''Rate limit exceeded'',
                                 e_resetTime = Some resetTime, e_timestamp = ts\<rparr>]\<rparr>)))
         | Scrape attempt answer \<Rightarrow>
             (case answer of
                Inr result \<Rightarrow>
                  (let w1 = set_breaker w (client_id client, p)
                              (recordSuccess (get_breaker w (client_id client, p)))
                   in case analyzer env of
                        None \<Rightarrow>
                          loop_head env client rest (clientResults @ [Unanalyzed p result]) w1
                      | Some analyzerAgent \<Rightarrow>
                          (Waiting \<lparr>t_client = client, t_platform = p, t_rest = rest,
                                    t_results = clientResults,
                                    t_awaited = Analysis result (analyzerAgent result client p)\<rparr>,
                           w1))
              | Inl e \<Rightarrow>
                  (case isRetryableError e of
                     Inl thrownByCondition \<Rightarrow>
                       after_catch env client p rest (Error thrownByCondition) clientResults w
                   | Inr retryable \<Rightarrow>
                       if \<not> retryable then after_catch env client p rest (Error e) clientResults w
                       else if attempt = v_maxRetries input
                       then after_catch env client p rest (Error e) clientResults w
                       else (Waiting \<lparr>t_client = client, t_platform = p, t_rest = rest,
                                       t_results = clientResults, t_awaited = Sleep attempt e\<rparr>,
                             w)))
         | Sleep attempt e \<Rightarrow>
             start_attempt env input client p rest clientResults (attempt + 1) (Error e) w
         | Rejected err \<Rightarrow> after_catch env client p rest err clientResults w
         | Analysis result answer \<Rightarrow>
             (case answer of
                Inl e \<Rightarrow> after_catch env client p rest (Error e) clientResults w
              | Inr analysed \<Rightarrow>
                  loop_head env client rest (clientResults @ [Analyzed p analysed result]) w))"

text \<open>\<^verbatim>\<open>batch.map\<close>: every task of the batch runs to its first await, in the order of the batch.\<close>

fun start_tasks ::
  "('a, 'r) env \<Rightarrow> platform list \<Rightarrow> Client list \<Rightarrow> ('a, 'r) world
     \<Rightarrow> ('a, 'r) task_state list \<times> ('a, 'r) world" where
  "start_tasks env ps [] w = ([], w)"
| "start_tasks env ps (client # rest) w =
     (case loop_head env client ps [] w of (st, w1) \<Rightarrow>
        (case start_tasks env ps rest w1 of (sts, w2) \<Rightarrow> (st # sts, w2)))"

definition waiting_indices :: "('a, 'r) task_state list \<Rightarrow> nat list" where
  "waiting_indices ts =
     filter (\<lambda>i. case ts ! i of Waiting t \<Rightarrow> True | Settled r \<Rightarrow> False) [0 ..< length ts]"

text \<open>What is left of a task before it settles; it bounds the number of times it goes on.\<close>

definition task_measure :: "ValidatedInput \<Rightarrow> ('a, 'r) task_state \<Rightarrow> nat" where
  "task_measure input st =
     (case st of
        Settled r \<Rightarrow> 0
      | Waiting t \<Rightarrow>
          Suc (length (t_rest t) * (2 * nat (v_maxRetries input) + 4)
               + (case t_awaited t of
                    Acquire ok \<Rightarrow> 2 * nat (v_maxRetries input) + 3
                  | Scrape attempt answer \<Rightarrow> 2 * nat (v_maxRetries input - attempt) + 2
                  | Sleep attempt e \<Rightarrow> 2 * nat (v_maxRetries input - attempt) + 1
                  | Rejected err \<Rightarrow> 0
                  | Analysis result answer \<Rightarrow> 0)))"

text \<open>
  The tasks of batch \<open>b\<close> until all are settled. Which of the waiting tasks goes on at step
  \<open>k\<close> is up to the runtime: \<open>schedule env b k\<close> picks it, and every order of the
  continuations is the choice of some \<open>schedule\<close>.
\<close>

function run_tasks ::
  "('a, 'r) env \<Rightarrow> ValidatedInput \<Rightarrow> nat \<Rightarrow> nat \<Rightarrow> ('a, 'r) task_state list
     \<Rightarrow> ('a, 'r) world \<Rightarrow> ('a, 'r) task_state list \<times> ('a, 'r) world" where
  "run_tasks env input b k ts w =
     (if waiting_indices ts = [] then (ts, w)
      else (let i = waiting_indices ts ! (schedule env b k mod length (waiting_indices ts))
            in case ts ! i of
                 Settled r \<Rightarrow> (ts, w)
               | Waiting t \<Rightarrow>
                   (case resume env input t w of (st, w1) \<Rightarrow>
                      run_tasks env input b (Suc k) (ts[i := st]) w1)))"
  by pat_completeness auto
termination
proof (relation "measure (\<lambda>(env, input, b, k, ts, w). sum_list (map (task_measure input) ts))",
    goal_cases)
  case 1
  show ?case by simp
next
  case (2 env input b k ts w i t st w1)
  have head: "task_measure input (fst (loop_head env client rest crs w0))
                \<le> length rest * (2 * nat (v_maxRetries input) + 4)"
    for env :: "('a, 'r) env" and client rest crs w0
  proof (induction rest arbitrary: crs w0)
    case Nil
    show ?case by (simp add: task_measure_def split: prod.splits)
  next
    case (Cons p rest)
    show ?case
    proof (cases "breaker_isOpen env (client_id client, p) w0")
      case (Pair isopen w1)
      show ?thesis
      proof (cases isopen)
        case True
        obtain tm w2 where d: "Date_now env w1 = (tm, w2)" by (cases "Date_now env w1")
        show ?thesis
          using Cons.IH [of crs "w2\<lparr>errors := errors w2 @
                    [\<lparr>e_clientId = Some (client_id client), e_platform = Some p,
                      e_error = js ''Circuit breaker open'', e_resetTime = None,
                      e_timestamp = tm\<rparr>]\<rparr>"]
          by (simp add: Pair True d)
      next
        case False
        show ?thesis
          by (simp add: Pair False task_measure_def split: prod.splits)
      qed
    qed
  qed
  have catch: "task_measure input (fst (after_catch env client p rest err crs w0))
                \<le> length rest * (2 * nat (v_maxRetries input) + 4)"
    for env :: "('a, 'r) env" and client p rest err crs w0
    using head [of env client rest]
    by (simp add: after_catch_def task_measure_def split: prod.splits sum.splits)
  have attempt: "task_measure input
                   (fst (start_attempt env input client p rest crs a lastError w0))
                 \<le> Suc (length rest * (2 * nat (v_maxRetries input) + 4)
                        + 2 * nat (v_maxRetries input + 1 - a))"
    for env :: "('a, 'r) env" and client p rest crs a lastError w0
    by (simp add: start_attempt_def task_measure_def split: prod.splits) arith
  have headt: "task_measure input (fst (loop_head env (t_client t) (t_rest t) crs w0))
                 < task_measure input (Waiting t)" for crs w0
    using head [of env "t_client t" "t_rest t" crs w0]
    by (simp add: task_measure_def [of input "Waiting t"])
  have catcht: "task_measure input
                  (fst (after_catch env (t_client t) (t_platform t) (t_rest t) err crs w0))
                 < task_measure input (Waiting t)" for err crs w0
    using catch [of env "t_client t" "t_platform t" "t_rest t" err crs w0]
    by (simp add: task_measure_def [of input "Waiting t"])
  have step: "task_measure input (fst (resume env input t w)) < task_measure input (Waiting t)"
  proof (cases "t_awaited t")
    case (Acquire ok)
    show ?thesis
    proof (cases ok)
      case True
      have "resume env input t w =
              start_attempt env input (t_client t) (t_platform t) (t_rest t) (t_results t)
                1 Undefined w"
        by (simp add: resume_def Acquire True Let_def)
      then show ?thesis
        using attempt [of env "t_client t" "t_platform t" "t_rest t" "t_results t" 1 Undefined w]
        by (simp add: task_measure_def [of input "Waiting t"] Acquire)
    next
      case False
      then show ?thesis
        by (simp add: resume_def Acquire Let_def headt split: prod.splits)
    qed
  next
    case (Scrape a answer)
    show ?thesis
      by (simp add: resume_def Scrape Let_def headt catcht split: sum.splits option.splits)
        (simp_all add: task_measure_def Scrape)
  next
    case (Sleep a e)
    have "resume env input t w =
            start_attempt env input (t_client t) (t_platform t) (t_rest t) (t_results t)
              (a + 1) (Error e) w"
      by (simp add: resume_def Sleep Let_def)
    then show ?thesis
      using attempt [of env "t_client t" "t_platform t" "t_rest t" "t_results t" "a + 1"
          "Error e" w]
      by (simp add: task_measure_def [of input "Waiting t"] Sleep)
  next
    case (Rejected err)
    show ?thesis
      by (simp add: resume_def Rejected Let_def catcht)
  next
    case (Analysis result answer)
    show ?thesis
      by (simp add: resume_def Analysis Let_def headt catcht split: sum.splits)
  qed
  have "i \<in> set (waiting_indices ts)"
    using "2"(1,2) by simp
  then have i: "i < length ts"
    by (simp add: waiting_indices_def)
  have st: "st = fst (resume env input t w)"
    using "2"(4) by (metis fst_conv)
  have "task_measure input st < task_measure input (ts ! i)"
    using step st "2"(3) by simp
  then have "sum_list ((map (task_measure input) ts)[i := task_measure input st])
          < sum_list (map (task_measure input) ts)"
    using i elem_le_sum_list [of i "map (task_measure input) ts"]
    by (simp add: sum_list_update)
  then show ?case by (simp add: map_update)
qed

declare run_tasks.simps [simp del]

text \<open>
  The settled outcomes of a batch, in the order of the batch, as \<^verbatim>\<open>Promise.allSettled\<close>
  delivers them. When \<open>run_tasks\<close> returns no task is waiting, so every task has its
  outcome in the list.
\<close>

definition settle_clients ::
  "('a, 'r) env \<Rightarrow> ValidatedInput \<Rightarrow> platform list \<Rightarrow> nat \<Rightarrow> Client list \<Rightarrow> ('a, 'r) world
     \<Rightarrow> (thrown + ('a, 'r) ClientResult) list \<times> ('a, 'r) world" where
  "settle_clients env input ps b batch w =
     (case start_tasks env ps batch w of (ts, w1) \<Rightarrow>
        (case run_tasks env input b 0 ts w1 of (settled, w2) \<Rightarrow>
           (concat (map (\<lambda>st. case st of Settled r \<Rightarrow> [r] | Waiting t \<Rightarrow> []) settled), w2)))"

text \<open>\<^verbatim>\<open>batchResults.forEach\<close>: a rejection whose reason is \<open>undefined\<close> throws here.\<close>

fun collect_batch ::
  "('a, 'r) env \<Rightarrow> (thrown + ('a, 'r) ClientResult) list \<Rightarrow> ('a, 'r) world
     \<Rightarrow> (thrown + unit) \<times> ('a, 'r) world" where
  "collect_batch env [] w = (Inr (), w)"
| "collect_batch env (Inr v # rest) w = collect_batch env rest (w\<lparr>results := results w @ [v]\<rparr>)"
| "collect_batch env (Inl Undefined # rest) w = (Inl (Error undefined_message_TypeError), w)"
| "collect_batch env (Inl (Error e) # rest) w =
     (case Date_now env w of (t, w1) \<Rightarrow>
        collect_batch env rest
          (w1\<lparr>errors := errors w1 @
               [\<lparr>e_clientId = None, e_platform = None, e_error = message e,
                 e_resetTime = None, e_timestamp = t\<rparr>]\<rparr>))"

text \<open>The batches one after the other, from batch number \<open>b\<close> on.\<close>

fun process_batches ::
  "('a, 'r) env \<Rightarrow> ValidatedInput \<Rightarrow> platform list \<Rightarrow> nat \<Rightarrow> Client list list
     \<Rightarrow> ('a, 'r) world \<Rightarrow> (thrown + unit) \<times> ('a, 'r) world" where
  "process_batches env input ps b [] w = (Inr (), w)"
| "process_batches env input ps b (batch # rest) w =
     (case settle_clients env input ps b batch w of (batchResults, w1) \<Rightarrow>
        (case collect_batch env batchResults w1 of
           (Inl err, w2) \<Rightarrow> (Inl err, w2)
         | (Inr u, w2) \<Rightarrow> process_batches env input ps (Suc b) rest w2))"


subsection \<open>Accounting of the work units of a batch\<close>



text \<open>\<open>chunkArray\<close>; with size 0 and a non-empty array its loop never ends (\<open>None\<close>).\<close>

function chunkArray :: "'x list \<Rightarrow> nat \<Rightarrow> 'x list list option" where
  "chunkArray array n =
     (if array = [] then Some []
      else if n = 0 then None
      else map_option ((#) (take n array)) (chunkArray (drop n array) n))"
  by pat_completeness auto
termination
  by (relation "measure (\<lambda>(array, n). length array)") auto

declare chunkArray.simps [simp del]

definition getClients :: "('a, 'r) env \<Rightarrow> int list option \<Rightarrow> js_error + Client list" where
  "getClients env ids =
     (case ids of
        None \<Rightarrow> findActive env
      | Some l \<Rightarrow> if length l > 0 then getClientsForMonitoring env l else findActive env)"

record Stats =
  executionTime :: int
  totalClients :: nat
  totalPlatforms :: nat
  successfulResults :: nat
  failedResults :: nat

record ('a, 'r) Outcome =
  success :: bool
  o_results :: "('a, 'r) ClientResult list"
  o_errors :: "ErrorEntry list"
  stats :: Stats

definition all_platforms :: "platform list" where
  "all_platforms = [chatgpt, perplexity, gemini, claude, google_ai]"

text \<open>
  \<open>execute\<close>. The arrays \<open>errors\<close> and \<open>results\<close> start empty; the breakers and limiters
  are those of the incoming state. \<open>None\<close> stands for a run that does not end.
\<close>

definition execute ::
  "('a, 'r) env \<Rightarrow> MonitoringInput \<Rightarrow> ('a, 'r) world
     \<Rightarrow> ((thrown + ('a, 'r) Outcome) \<times> ('a, 'r) world) option" where
  "execute env raw w0 =
     (case Date_now env (w0\<lparr>errors := [], results := []\<rparr>) of (startTime, w1) \<Rightarrow>
      (case MonitoringInputSchema_parse raw of
         Inl e \<Rightarrow> Some (Inl (Error e), w1)
       | Inr input \<Rightarrow>
      (case getClients env (v_clientIds input) of
         Inl e \<Rightarrow> Some (Inl (Error e), w1)
       | Inr clients \<Rightarrow>
           if length clients = 0
           then Some (Inl (Error \<lparr>message = js ''No clients found for monitoring'', code = NoCode\<rparr>), w1)
           else
             (let ps = (case v_platforms input of None \<Rightarrow> all_platforms | Some l \<Rightarrow> l);
                  concurrency = (if v_priority input = High then 5
                                 else if v_priority input = Medium then 3 else 1)
              in case chunkArray clients concurrency of
                   None \<Rightarrow> None
                 | Some clientBatches \<Rightarrow>
                     (case process_batches env input ps 0 clientBatches w1 of
                        (Inl err, w2) \<Rightarrow> Some (Inl err, w2)
                      | (Inr u, w2) \<Rightarrow>
                          (case Date_now env w2 of (endTime, w3) \<Rightarrow>
                             Some (Inr \<lparr>success = True, o_results = results w3,
                                        o_errors = errors w3,
                                        stats = \<lparr>executionTime = endTime - startTime,
                                                  totalClients = length clients,
                                                  totalPlatforms = length ps,
                                                  successfulResults = length (results w3),
                                                  failedResults = length (errors w3)\<rparr>\<rparr>,
                                   w3)))))))"

text \<open>
  No index of the text, from 0 to its length, starts a whole-word match of any of the names.
\<close>

definition no_whole_word_match :: "case_tables \<Rightarrow> js_string \<Rightarrow> js_string list \<Rightarrow> bool" where
  "no_whole_word_match ct text names =
     list_all (\<lambda>name. list_all (\<lambda>j. \<not> word_match_at ct name text j) [0 ..< length text + 1]) names"

section \<open>Scenarios\<close>

text \<open>
  The end-to-end scenario of the specification: two clients, two platforms, priority low,
  \<open>maxRetries = 0\<close>, a scraper that always succeeds, and the breaker of the first
  client's first platform opened one second before the run starts.
\<close>

definition e2e_client1 :: Client where
  "e2e_client1 = \<lparr>client_id = 1, client_name = js ''A'', brandNames = [js ''Acme''],
                   competitorNames = None\<rparr>"

definition e2e_client2 :: Client where
  "e2e_client2 = \<lparr>client_id = 2, client_name = js ''B'', brandNames = [js ''Bolt''],
                   competitorNames = None\<rparr>"

definition e2e_env :: "(unit, ScrapeResult) env" where
  "e2e_env =
     \<lparr>clock = (\<lambda>n. 1000000 + int n),
      getClientsForMonitoring = (\<lambda>ids. Inr [e2e_client1, e2e_client2]),
      findActive = Inr [e2e_client1, e2e_client2],
      scraper = Some (\<lambda>n p c ms. Inr \<lparr>response = Some (js ''ok'')\<rparr>),
      analyzer = None,
      schedule = (\<lambda>b k. 0)\<rparr>"

definition e2e_request :: MonitoringInput where
  "e2e_request =
     \<lparr>clientIds = None, platforms = Some [chatgpt, perplexity], priority = Some Low,
      retryOnFailure = None, maxRetries = Some 0, timeout = None\<rparr>"

definition e2e_open_breaker :: CircuitBreaker where
  "e2e_open_breaker =
     \<lparr>cb_options = breaker_options, failureCount = 5, lastFailureTime = Some 999000,
      state = OPEN, halfOpenAttempts = 0\<rparr>"

definition e2e_world :: "(unit, ScrapeResult) world" where
  "e2e_world =
     \<lparr>circuitBreakers = [(1, chatgpt) \<mapsto> e2e_open_breaker],
      rateLimiters = (\<lambda>p. new_RateLimiter \<lparr>maxRequests = 10, windowMs = 60000\<rparr>),
      errors = [], results = [], clock_reads = 0, scrape_calls = 0\<rparr>"

text \<open>
  Variations of the scenario: the validated request with three attempts, limiters that
  admit nothing, a scraper that always throws a non-retryable error, an analyzer that
  always throws, and the second client's first breaker in HALF_OPEN.
\<close>

definition e2e_input3 :: ValidatedInput where
  "e2e_input3 =
     \<lparr>v_clientIds = None, v_platforms = Some [chatgpt, perplexity], v_priority = Low,
      v_retryOnFailure = True, v_maxRetries = 3, v_timeout = 30000\<rparr>"




definition analysis_error :: js_error where
  "analysis_error = \<lparr>message = js ''Analysis failed'', code = NoCode\<rparr>"

definition failing_analyzer_env :: "(unit, ScrapeResult) env" where
  "failing_analyzer_env = e2e_env\<lparr>analyzer := Some (\<lambda>r c p. Inl analysis_error)\<rparr>"

definition half_open_world :: "(unit, ScrapeResult) world" where
  "half_open_world =
     e2e_world\<lparr>circuitBreakers := [(2, chatgpt) \<mapsto> e2e_open_breaker\<lparr>state := HALF_OPEN\<rparr>]\<rparr>"

text \<open>
  A state with no breaker and limiters that admit one request, and a runtime that lets
  the second waiting task go on whenever there is one.
\<close>

definition one_slot_world :: "(unit, ScrapeResult) world" where
  "one_slot_world =
     e2e_world\<lparr>circuitBreakers := Map.empty,
               rateLimiters := (\<lambda>p. new_RateLimiter \<lparr>maxRequests = 1, windowMs = 60000\<rparr>)\<rparr>"

definition second_first_env :: "(unit, ScrapeResult) env" where
  "second_first_env = e2e_env\<lparr>schedule := (\<lambda>b k. 1)\<rparr>"

section \<open>Properties of the rate limiter\<close>

lemma tryAcquire_options [simp]: "rl_options (snd (tryAcquire now rl)) = rl_options rl"
  by (simp add: tryAcquire_def Let_def)

lemma tryAcquire_in_window:
  assumes "\<forall>t \<in> set (requests rl). now - windowMs (rl_options rl) < t"
  shows "tryAcquire now rl =
           (if int (length (requests rl)) < maxRequests (rl_options rl)
            then (True, rl\<lparr>requests := requests rl @ [now]\<rparr>)
            else (False, rl))"
proof -
  have "filter (\<lambda>time. time > now - windowMs (rl_options rl)) (requests rl) = requests rl"
    using assms by (simp add: filter_id_conv)
  then show ?thesis
    by (simp add: tryAcquire_def Let_def)
qed

lemma tryAcquire_calls_in_window:
  assumes "\<forall>t \<in> set (requests rl) \<union> set ts. \<forall>t' \<in> set ts. t' - windowMs (rl_options rl) < t"
    and "maxRequests (rl_options rl) = int N"
    and "length (requests rl) + k = N"
  shows "tryAcquire_calls ts rl =
           (replicate (min k (length ts)) True @ replicate (length ts - k) False,
            rl\<lparr>requests := requests rl @ take k ts\<rparr>)"
  using assms
proof (induction ts arbitrary: rl k)
  case Nil
  then show ?case by simp
next
  case (Cons t ts)
  have win: "\<forall>u \<in> set (requests rl). t - windowMs (rl_options rl) < u"
    using Cons.prems(1) by simp
  show ?case
  proof (cases k)
    case 0
    then have full: "\<not> int (length (requests rl)) < maxRequests (rl_options rl)"
      using Cons.prems by simp
    have step: "tryAcquire t rl = (False, rl)"
      using tryAcquire_in_window [OF win] full by simp
    have "tryAcquire_calls ts rl =
            (replicate (min 0 (length ts)) True @ replicate (length ts - 0) False,
             rl\<lparr>requests := requests rl @ take 0 ts\<rparr>)"
      using Cons.prems 0 by (intro Cons.IH) auto
    then show ?thesis using step 0 by simp
  next
    case (Suc j)
    then have room: "int (length (requests rl)) < maxRequests (rl_options rl)"
      using Cons.prems by simp
    let ?rl1 = "rl\<lparr>requests := requests rl @ [t]\<rparr>"
    have step: "tryAcquire t rl = (True, ?rl1)"
      using tryAcquire_in_window [OF win] room by simp
    have "tryAcquire_calls ts ?rl1 =
            (replicate (min j (length ts)) True @ replicate (length ts - j) False,
             ?rl1\<lparr>requests := requests ?rl1 @ take j ts\<rparr>)"
      using Cons.prems Suc by (intro Cons.IH) auto
    then show ?thesis using step Suc by simp
  qed
qed

text \<open>
  C8. A fresh limiter with \<open>maxRequests = N\<close> receives \<open>N + 1\<close> calls whose clock
  readings lie pairwise within one window (\<open>t' - windowMs < t\<close> for any two of them): the
  first \<open>N\<close> calls return true and the last one returns false. Once the oldest admitted
  timestamp has left the window (\<open>oldest \<le> now - windowMs\<close>), a further call returns true.
\<close>

theorem C8_rate_limiter_window:
  assumes "maxRequests opts = int N" and "0 < N"
    and "length ts = N + 1"
    and "\<forall>t \<in> set ts. \<forall>t' \<in> set ts. t' - windowMs opts < t"
    and "Min (set (take N ts)) \<le> now - windowMs opts"
  shows "fst (tryAcquire_calls ts (new_RateLimiter opts)) = replicate N True @ [False]
       \<and> requests (snd (tryAcquire_calls ts (new_RateLimiter opts))) = take N ts
       \<and> fst (tryAcquire now (snd (tryAcquire_calls ts (new_RateLimiter opts)))) = True"
proof -
  let ?rl = "new_RateLimiter opts"
  have run: "tryAcquire_calls ts ?rl =
               (replicate (min N (length ts)) True @ replicate (length ts - N) False,
                ?rl\<lparr>requests := requests ?rl @ take N ts\<rparr>)"
    using assms by (intro tryAcquire_calls_in_window [where N = N])
      (auto simp: new_RateLimiter_def)
  have res: "fst (tryAcquire_calls ts ?rl) = replicate N True @ [False]"
    using run assms(3) by simp
  have req: "requests (snd (tryAcquire_calls ts ?rl)) = take N ts"
    using run by (simp add: new_RateLimiter_def)
  let ?rs = "take N ts"
  have ne: "?rs \<noteq> []" using assms(2,3) by auto
  have len: "length ?rs = N" using assms(3) by simp
  have "Min (set ?rs) \<in> set ?rs" using ne by (intro Min_in) auto
  moreover have "\<not> Min (set ?rs) > now - windowMs opts" using assms(5) by simp
  ultimately have "length (filter (\<lambda>time. time > now - windowMs opts) ?rs) < length ?rs"
    by (rule length_filter_less)
  then have "int (length (filter (\<lambda>time. time > now - windowMs opts) ?rs)) < int N"
    using len by simp
  then have "fst (tryAcquire now (snd (tryAcquire_calls ts ?rl))) = True"
    using run assms(1) by (simp add: tryAcquire_def Let_def new_RateLimiter_def)
  with res req show ?thesis by simp
qed

theorem C8_rate_limiter_window_witness:
  "maxRequests \<lparr>maxRequests = 2, windowMs = 60000\<rparr> = int 2 \<and> (0::nat) < 2
   \<and> length [1000, 1500, 2000 :: int] = 2 + 1
   \<and> Min (set (take 2 [1000, 1500, 2000 :: int])) \<le> 61000 - windowMs \<lparr>maxRequests = 2, windowMs = 60000\<rparr>
   \<and> fst (tryAcquire_calls [1000, 1500, 2000]
            (new_RateLimiter \<lparr>maxRequests = 2, windowMs = 60000\<rparr>)) = [True, True, False]
   \<and> fst (tryAcquire 61000 (snd (tryAcquire_calls [1000, 1500, 2000]
            (new_RateLimiter \<lparr>maxRequests = 2, windowMs = 60000\<rparr>)))) = True"
proof -
  let ?opts = "\<lparr>maxRequests = 2, windowMs = 60000\<rparr>"
  have h1: "maxRequests ?opts = int 2" by simp
  have h2: "(0::nat) < 2" by simp
  have h3: "length [1000, 1500, 2000 :: int] = 2 + 1" by simp
  have h4: "\<forall>t \<in> set [1000, 1500, 2000 :: int]. \<forall>t' \<in> set [1000, 1500, 2000].
              t' - windowMs ?opts < t" by simp
  have h5: "Min (set (take 2 [1000, 1500, 2000 :: int])) \<le> 61000 - windowMs ?opts"
    by (simp add: numeral_2_eq_2)
  from C8_rate_limiter_window [OF h1 h2 h3 h4 h5] h1 h2 h3 h5
  show ?thesis by (simp add: numeral_2_eq_2)
qed

section \<open>Properties of the circuit breaker\<close>

lemma isOpen_HALF_OPEN: "state b = HALF_OPEN \<Longrightarrow> isOpen now b = (False, b)"
  by (simp add: isOpen_def)

lemma isOpen_calls_HALF_OPEN:
  "state b = HALF_OPEN \<Longrightarrow> isOpen_calls ts b = (replicate (length ts) False, b)"
  by (induction ts) (simp_all add: isOpen_HALF_OPEN)

text \<open>
  C7. With \<open>failureThreshold = 5\<close> and \<open>halfOpenRequests = 2\<close>, a new breaker is still
  CLOSED after four \<open>recordFailure\<close> calls and OPEN after the fifth; \<open>isOpen\<close> then returns
  true as long as no more than \<open>resetTimeout\<close> has passed since the last failure. Once
  more than \<open>resetTimeout\<close> has passed (the last failure's clock reading being non-zero),
  \<open>isOpen\<close> returns false and leaves the breaker HALF_OPEN, and so does a repeated check.
  From there one \<open>recordSuccess\<close> keeps HALF_OPEN, two move to CLOSED with
  \<open>failureCount = 0\<close>, and one \<open>recordFailure\<close> moves back to OPEN.
\<close>

theorem C7_breaker_lifecycle:
  assumes "failureThreshold opts = 5" and "halfOpenRequests opts = Some 2"
    and "b4 = recordFailure t4 (recordFailure t3 (recordFailure t2
                (recordFailure t1 (new_CircuitBreaker opts))))"
    and "b5 = recordFailure t5 b4"
    and "early - t5 \<le> resetTimeout opts"
    and "late - t5 > resetTimeout opts" and "t5 \<noteq> 0"
    and "h = snd (isOpen late b5)"
  shows "state b4 = CLOSED \<and> state b5 = OPEN \<and> failureCount b5 = 5
       \<and> isOpen early b5 = (True, b5)
       \<and> fst (isOpen late b5) = False \<and> state h = HALF_OPEN
       \<and> isOpen later h = (False, h)
       \<and> state (recordSuccess h) = HALF_OPEN
       \<and> state (recordSuccess (recordSuccess h)) = CLOSED
       \<and> failureCount (recordSuccess (recordSuccess h)) = 0
       \<and> state (recordFailure t6 h) = OPEN"
  using assms
  by (simp add: recordFailure_def new_CircuitBreaker_def isOpen_def recordSuccess_def Let_def)

theorem C7_breaker_lifecycle_witness:
  "failureThreshold \<lparr>failureThreshold = 5, resetTimeout = 60000, halfOpenRequests = Some 2\<rparr> = 5
   \<and> 1040 - 1005 \<le> resetTimeout \<lparr>failureThreshold = 5, resetTimeout = 60000, halfOpenRequests = Some 2\<rparr>
   \<and> 70000 - 1005 > resetTimeout \<lparr>failureThreshold = 5, resetTimeout = 60000, halfOpenRequests = Some 2\<rparr>
   \<and> state (recordFailure 1005 (recordFailure 1004 (recordFailure 1003 (recordFailure 1002
        (recordFailure 1001 (new_CircuitBreaker
          \<lparr>failureThreshold = 5, resetTimeout = 60000, halfOpenRequests = Some 2\<rparr>)))))) = OPEN
   \<and> fst (isOpen 70000 (recordFailure 1005 (recordFailure 1004 (recordFailure 1003
        (recordFailure 1002 (recordFailure 1001 (new_CircuitBreaker
          \<lparr>failureThreshold = 5, resetTimeout = 60000, halfOpenRequests = Some 2\<rparr>))))))) = False"
proof -
  let ?opts = "\<lparr>failureThreshold = 5, resetTimeout = 60000, halfOpenRequests = Some 2\<rparr>"
  let ?b4 = "recordFailure 1004 (recordFailure 1003 (recordFailure 1002
               (recordFailure 1001 (new_CircuitBreaker ?opts))))"
  have h1: "failureThreshold ?opts = 5" by simp
  have h2: "halfOpenRequests ?opts = Some 2" by simp
  have h5: "1040 - 1005 \<le> resetTimeout ?opts" by simp
  have h6: "70000 - 1005 > resetTimeout ?opts" by simp
  have h7: "(1005::int) \<noteq> 0" by simp
  from C7_breaker_lifecycle [OF h1 h2 refl refl h5 h6 h7 refl, of 1004 1003 1002 1001 70001 1006]
    h1 h5 h6
  show ?thesis by simp
qed

text \<open>
  C10. In HALF_OPEN every \<open>isOpen\<close> call returns false and leaves every field of the
  breaker as it was, however many calls are made; a call of the class that takes the
  breaker out of HALF_OPEN is a \<open>recordSuccess\<close> or a \<open>recordFailure\<close>.
\<close>

theorem C10_half_open_admits_all:
  assumes "state b = HALF_OPEN"
  shows "isOpen now b = (False, b)
       \<and> isOpen_calls ts b = (replicate (length ts) False, b)
       \<and> (state (breaker_step c b) \<noteq> HALF_OPEN \<longrightarrow>
            c = RecordSuccess \<or> (\<exists>t. c = RecordFailure t))"
  using assms
  by (cases c) (simp_all add: isOpen_HALF_OPEN isOpen_calls_HALF_OPEN)

theorem C10_half_open_admits_all_witness:
  "state \<lparr>cb_options = \<lparr>failureThreshold = 5, resetTimeout = 60000, halfOpenRequests = Some 2\<rparr>,
          failureCount = 5, lastFailureTime = Some 1000, state = HALF_OPEN,
          halfOpenAttempts = 0\<rparr> = HALF_OPEN
   \<and> fst (isOpen_calls [2000, 3000, 4000]
       \<lparr>cb_options = \<lparr>failureThreshold = 5, resetTimeout = 60000, halfOpenRequests = Some 2\<rparr>,
        failureCount = 5, lastFailureTime = Some 1000, state = HALF_OPEN,
        halfOpenAttempts = 0\<rparr>) = [False, False, False]"
proof -
  let ?b = "\<lparr>cb_options = \<lparr>failureThreshold = 5, resetTimeout = 60000, halfOpenRequests = Some 2\<rparr>,
             failureCount = 5, lastFailureTime = Some 1000, state = HALF_OPEN,
             halfOpenAttempts = 0\<rparr>"
  have h: "state ?b = HALF_OPEN" by simp
  from C10_half_open_admits_all [OF h, of 2000 "[2000, 3000, 4000]" GetState] h
  show ?thesis by (simp del: isOpen_calls.simps)
qed

section \<open>Properties of retry\<close>

lemma str_includes_sublist: "str_includes s t \<longleftrightarrow> sublist t s"
  by (induction s) (auto simp: sublist_Cons_right)

lemma retryableErrors_some_string:
  "retryableErrors_some m (Inr c) tys =
     Inr (list_ex (\<lambda>ty. sublist ty m \<or> sublist ty c) tys)"
  by (induction tys) (auto simp: str_includes_sublist)

lemma retryableErrors_some_number:
  "retryableErrors_some m (Inl n) (ty # tys) =
     (if sublist ty m then Inr True else Inl includes_TypeError)"
  by (simp add: str_includes_sublist)

lemma isRetryableError_iff:
  "errorCode_of (code err) = Inr c \<Longrightarrow>
   isRetryableError err =
     Inr (list_ex (\<lambda>ty. sublist ty (message err) \<or> sublist ty c) retryableErrors)"
  by (simp add: isRetryableError_def retryableErrors_some_string)

text \<open>
  With a non-zero number as code, the first entry of the list decides: the message
  contains \<open>TIMEOUT\<close>, or \<open>includes\<close> is called on the number and throws.
\<close>

lemma isRetryableError_number_code:
  "code err = NumberCode n \<Longrightarrow> n \<noteq> 0 \<Longrightarrow>
   isRetryableError err =
     (if sublist (js ''TIMEOUT'') (message err) then Inr True else Inl includes_TypeError)"
  by (simp add: isRetryableError_def Let_def errorCode_of_def retryableErrors_def
      str_includes_sublist)

lemma retry_not_retryable:
  assumes "1 \<le> attempts options" and "retryCondition options = Some c"
    and "fn s = (Inl e, s1)" and "c e = Inr False"
  shows "retry sleep fn options s = (Inl (Error e), s1)"
  using assms by (simp add: retry_def retry_from.simps [of _ _ _ 1])

lemma retry_condition_throws:
  assumes "1 \<le> attempts options" and "retryCondition options = Some c"
    and "fn s = (Inl e, s1)" and "c e = Inl t"
  shows "retry sleep fn options s = (Inl (Error t), s1)"
  using assms by (simp add: retry_def retry_from.simps [of _ _ _ 1])

text \<open>
  An error whose code is a non-zero number and whose message does not contain \<open>TIMEOUT\<close>:
  \<open>isRetryableError\<close> throws inside the \<^verbatim>\<open>catch\<close> block of \<open>retry\<close>, which ends with that
  \<open>TypeError\<close> in place of the error of the operation, after one call.
\<close>

lemma retry_number_code:
  assumes "code err = NumberCode n" and "n \<noteq> 0"
    and "\<not> sublist (js ''TIMEOUT'') (message err)"
    and "1 \<le> attempts options" and "retryCondition options = Some isRetryableError"
    and "fn s = (Inl err, s1)"
  shows "retry sleep fn options s = (Inl (Error includes_TypeError), s1)"
proof -
  have "isRetryableError err = Inl includes_TypeError"
    using isRetryableError_number_code [OF assms(1,2)] assms(3) by simp
  then show ?thesis
    using assms(4,5,6) by (simp add: retry_def retry_from.simps [of _ _ _ 1])
qed

lemma retry_number_code_429:
  "retry (\<lambda>ms calls. calls)
     (\<lambda>calls. (Inl \<lparr>message = js ''Too Many Requests'', code = NumberCode 429\<rparr>, Suc calls))
     \<lparr>attempts = 3, delay = 2000, backoff = Some Exponential, maxDelay = Some 30000,
      onRetry = None, retryCondition = Some isRetryableError\<rparr> (0::nat)
   = (Inl (Error includes_TypeError) :: thrown + unit, 1)"
  by (rule retry_number_code [where n = 429])
    (simp_all add: js_def str_includes_sublist [symmetric])

text \<open>
  C4 as stated fails: an error whose message is \<open>NETWORK_ERROR\<close> and that has no code is
  retryable for the code and not for the stated classification.
\<close>

theorem C4_network_error_counterexample:
  "isRetryableError \<lparr>message = js ''NETWORK_ERROR'', code = NoCode\<rparr> = Inr True
   \<and> \<not> spec_retryable \<lparr>message = js ''NETWORK_ERROR'', code = NoCode\<rparr>"
proof
  show "isRetryableError \<lparr>message = js ''NETWORK_ERROR'', code = NoCode\<rparr> = Inr True"
    by (simp add: isRetryableError_def errorCode_of_def retryableErrors_def js_def)
  show "\<not> spec_retryable \<lparr>message = js ''NETWORK_ERROR'', code = NoCode\<rparr>"
    by (simp add: spec_retryable_def js_def)
qed

text \<open>
  C4, amended. For an error whose code is absent, a string or the number 0 (\<open>c\<close> below,
  empty unless a string), \<open>isRetryableError\<close> returns true exactly when the message or the code contains
  one of the ten substrings of \<open>retryableErrors\<close> (TIMEOUT, ETIMEDOUT, ECONNRESET,
  ECONNREFUSED, NETWORK_ERROR, RATE_LIMIT, TEMPORARY_FAILURE, 429, 503, 504), and false
  otherwise. When it returns false for the error thrown by the first call, \<open>retry\<close> with at
  least one attempt and this condition returns that error and the state the first call
  left: no \<open>onRetry\<close>, no sleep, no second call.
\<close>

theorem C4_retry_classification:
  "(errorCode_of (code err) = Inr c \<longrightarrow>
      isRetryableError err =
        Inr (list_ex (\<lambda>ty. sublist ty (message err) \<or> sublist ty c) retryableErrors))
   \<and> (1 \<le> attempts options \<and> retryCondition options = Some isRetryableError
        \<and> fn s = (Inl err, s1) \<and> isRetryableError err = Inr False
      \<longrightarrow> retry sleep fn options s = (Inl (Error err), s1))"
proof (intro conjI impI)
  assume "errorCode_of (code err) = Inr c"
  then show "isRetryableError err =
          Inr (list_ex (\<lambda>ty. sublist ty (message err) \<or> sublist ty c) retryableErrors)"
    by (rule isRetryableError_iff)
next
  assume h: "1 \<le> attempts options \<and> retryCondition options = Some isRetryableError
             \<and> fn s = (Inl err, s1) \<and> isRetryableError err = Inr False"
  then show "retry sleep fn options s = (Inl (Error err), s1)"
    by (intro retry_not_retryable [where c = isRetryableError]) simp_all
qed

theorem C4_retry_classification_witness:
  "errorCode_of (code \<lparr>message = js ''Scraper agent not found'', code = StringCode (js ''E404'')\<rparr>)
     = Inr (js ''E404'')
   \<and> isRetryableError \<lparr>message = js ''Scraper agent not found'', code = StringCode (js ''E404'')\<rparr>
     = Inr False
   \<and> retry (\<lambda>ms calls. calls)
        (\<lambda>calls. (Inl \<lparr>message = js ''Scraper agent not found'',
                        code = StringCode (js ''E404'')\<rparr>, Suc calls))
        \<lparr>attempts = 3, delay = 2000, backoff = Some Exponential, maxDelay = Some 30000,
         onRetry = None, retryCondition = Some isRetryableError\<rparr> (0::nat)
     = (Inl (Error \<lparr>message = js ''Scraper agent not found'',
                    code = StringCode (js ''E404'')\<rparr>) :: thrown + unit, 1)"
proof -
  let ?e = "\<lparr>message = js ''Scraper agent not found'', code = StringCode (js ''E404'')\<rparr>"
  let ?opts = "\<lparr>attempts = 3, delay = 2000, backoff = Some Exponential, maxDelay = Some 30000,
         onRetry = None, retryCondition = Some isRetryableError\<rparr> :: nat RetryOptions"
  let ?fn = "\<lambda>calls. (Inl ?e :: js_error + unit, Suc calls)"
  have c: "errorCode_of (code ?e) = Inr (js ''E404'')"
    by (simp add: errorCode_of_def)
  have n: "isRetryableError ?e = Inr False"
    by (simp add: isRetryableError_def errorCode_of_def retryableErrors_def js_def)
  have h: "1 \<le> attempts ?opts \<and> retryCondition ?opts = Some isRetryableError
           \<and> ?fn 0 = (Inl ?e, 1) \<and> isRetryableError ?e = Inr False"
    using n by simp
  have "retry (\<lambda>ms calls. calls) ?fn ?opts 0 = (Inl (Error ?e), 1)"
    using C4_retry_classification [of ?e "js ''E404''" ?opts ?fn 0 1 "\<lambda>ms calls. calls",
            THEN conjunct2, THEN mp, OF h] .
  with c n show ?thesis by (intro conjI)
qed

section \<open>Properties of the analyzer\<close>

lemma calculateMentionStrength_loop_sum:
  assumes "literal_pattern brand"
  shows "calculateMentionStrength_loop ct contexts brand strength =
           Some (strength
                 + 10 * length (filter (strong_endorsement ct) contexts)
                 + 5 * length (filter (\<lambda>context. startsWith context brand
                                          \<or> subject_match ct brand context) contexts)
                 + 5 * length (filter (comparison_win ct) contexts))"
  using assms
  by (induction contexts arbitrary: strength) (simp_all add: primary_subject_def Let_def)

text \<open>
  C5 as stated fails: two contexts that both hold a strong endorsement give 70, where one
  bonus of 10 on the base of 50 gives 60.
\<close>

theorem C5_two_endorsements_counterexample:
  "calculateMentionStrength latin1_tables
     [js ''We highly recommend Acme'', js ''Many highly recommend Acme''] (js ''Acme'') = Some 70
   \<and> spec_mention_strength latin1_tables
     [js ''We highly recommend Acme'', js ''Many highly recommend Acme''] (js ''Acme'') = 60"
proof
  show "calculateMentionStrength latin1_tables
     [js ''We highly recommend Acme'', js ''Many highly recommend Acme''] (js ''Acme'') = Some 70"
    by (simp add: calculateMentionStrength_def strong_endorsement_def comparison_win_def
        primary_subject_def startsWith_def literal_pattern_def syntax_characters_def
        subject_match_def ci_includes_def ci_search_def js_def latin1_tables_def)
  show "spec_mention_strength latin1_tables
     [js ''We highly recommend Acme'', js ''Many highly recommend Acme''] (js ''Acme'') = 60"
    by (simp add: spec_mention_strength_def strong_endorsement_def comparison_win_def
        startsWith_def subject_match_def ci_includes_def ci_search_def js_def latin1_tables_def)
qed

text \<open>
  C5, amended. For a brand name without regular-expression syntax characters and any list
  of contexts, the mention strength is the base 50, plus 10 for each context holding a
  strong endorsement, plus 5 for each context that starts with the brand or matches
  \<open><brand> is/are\<close>, plus 5 for each context holding a comparison win, capped at 100.
  This holds for every case table \<open>ct\<close>, that is however the runtime folds the case of
  brand and contexts.
\<close>

theorem C5_mention_strength_per_context:
  assumes "literal_pattern brand"
  shows "calculateMentionStrength ct contexts brand =
           Some (min 100
                  (50 + 10 * length (filter (strong_endorsement ct) contexts)
                      + 5 * length (filter (\<lambda>context. startsWith context brand
                                               \<or> subject_match ct brand context) contexts)
                      + 5 * length (filter (comparison_win ct) contexts)))"
  using calculateMentionStrength_loop_sum [OF assms, where contexts = contexts and strength = 50 and ct = ct]
  by (simp add: calculateMentionStrength_def min.commute)

theorem C5_mention_strength_per_context_witness:
  "literal_pattern (js ''Acme'')
   \<and> calculateMentionStrength latin1_tables
        [js ''Acme is better than most'', js ''We highly recommend Acme''] (js ''Acme'') = Some 70"
proof -
  have h: "literal_pattern (js ''Acme'')"
    by (simp add: literal_pattern_def syntax_characters_def js_def)
  have e: "filter (strong_endorsement latin1_tables)
             [js ''Acme is better than most'', js ''We highly recommend Acme'']
           = [js ''We highly recommend Acme'']"
    by (simp add: strong_endorsement_def ci_includes_def ci_search_def js_def latin1_tables_def)
  have p: "filter (\<lambda>context. startsWith context (js ''Acme'') \<or> subject_match latin1_tables (js ''Acme'') context)
             [js ''Acme is better than most'', js ''We highly recommend Acme'']
           = [js ''Acme is better than most'']"
    by (simp add: startsWith_def subject_match_def js_def latin1_tables_def)
  have c: "filter (comparison_win latin1_tables)
             [js ''Acme is better than most'', js ''We highly recommend Acme'']
           = [js ''Acme is better than most'']"
    by (simp add: comparison_win_def ci_includes_def ci_search_def js_def latin1_tables_def)
  from C5_mention_strength_per_context [OF h, where ct = latin1_tables
         and contexts = "[js ''Acme is better than most'', js ''We highly recommend Acme'']"] h
  show ?thesis unfolding e p c by simp
qed

text \<open>
  C9. Whatever the mentions, the sentiment and the position analysis are, the visibility
  score is the sum of its four factors and lies between 15 and 100: the mention-count
  factor is at most 25, and each of the other three is at least 5 and at most 25.
\<close>

theorem C9_visibility_score_bounds:
  "15 \<le> vs_score (calculateVisibilityScore bms cms sent pos)
   \<and> vs_score (calculateVisibilityScore bms cms sent pos) \<le> 100
   \<and> vs_score (calculateVisibilityScore bms cms sent pos)
       = mentionCount (factors (calculateVisibilityScore bms cms sent pos))
         + positionScore (factors (calculateVisibilityScore bms cms sent pos))
         + sentimentScore (factors (calculateVisibilityScore bms cms sent pos))
         + competitorComparison (factors (calculateVisibilityScore bms cms sent pos))
   \<and> mentionCount (factors (calculateVisibilityScore bms cms sent pos)) \<le> 25
   \<and> 5 \<le> positionScore (factors (calculateVisibilityScore bms cms sent pos))
   \<and> 5 \<le> sentimentScore (factors (calculateVisibilityScore bms cms sent pos))
   \<and> 5 \<le> competitorComparison (factors (calculateVisibilityScore bms cms sent pos))"
  by (simp add: calculateVisibilityScore_def Let_def min_def)

lemma matchAll_from_no_match:
  assumes "\<forall>j \<le> length tx. \<not> word_match_at ct nm tx j"
  shows "matchAll_from ct nm tx i = []"
  using assms
proof (induction ct nm tx i rule: matchAll_from.induct)
  case (1 ct nm tx i)
  show ?case
  proof (cases "length tx < i")
    case True
    then show ?thesis by (subst matchAll_from.simps) simp
  next
    case False
    then have no: "\<not> word_match_at ct nm tx i" using "1.prems" by simp
    have "matchAll_from ct nm tx (i + 1) = []"
      using "1.IH"(2) [OF False no "1.prems"] .
    with False no show ?thesis by (subst matchAll_from.simps) simp
  qed
qed

lemma analyzeBrandMentions_loop_no_match:
  assumes "list_all (\<lambda>name. \<forall>j \<le> length text. \<not> word_match_at ct name text j) names"
  shows "analyzeBrandMentions_loop ct text names mentions = Some mentions"
  using assms
  by (induction names) (simp_all add: matchAll_def matchAll_from_no_match)

lemma analyzeCompetitorMentions_loop_no_match:
  assumes "list_all (\<lambda>name. \<forall>j \<le> length text. \<not> word_match_at ct name text j) names"
  shows "analyzeCompetitorMentions_loop ct text names mentions = Some mentions"
  using assms
  by (induction names) (simp_all add: matchAll_def matchAll_from_no_match)

lemma no_whole_word_match_iff:
  "no_whole_word_match ct text names \<longleftrightarrow>
     list_all (\<lambda>name. \<forall>j \<le> length text. \<not> word_match_at ct name text j) names"
proof -
  have "set [0 ..< length text + 1] = {j. j \<le> length text}" by auto
  then show ?thesis
    unfolding no_whole_word_match_def list_all_iff by simp
qed

lemma recommendations_no_mentions:
  "js ''Critical: No brand mentions detected'' \<in> set (generateRecommendations [] cms sent pos vis)"
  by (simp add: generateRecommendations_def Let_def)

text \<open>
  C6. When no brand name and no competitor name has a whole-word match at any index of the
  response text, the analysis is returned with the position sentinel (average -1, relative
  position end), the factors 0, 5, 15 and 15, the total 35, and a recommendation list
  that contains \<open>Critical: No brand mentions detected\<close>. This holds for every case table
  \<open>ct\<close>: a match is a match under the case folding of the runtime, whatever it is.
\<close>

theorem C6_zero_mentions:
  assumes "text = (case response (ai_result input) of None \<Rightarrow> [] | Some r \<Rightarrow> r)"
    and "no_whole_word_match ct text (brandNames (ai_client input))"
    and "no_whole_word_match ct text
           (case competitorNames (ai_client input) of None \<Rightarrow> [] | Some ns \<Rightarrow> ns)"
  shows "\<exists>out. AnalyzerAgent_execute ct now input = Some out
           \<and> averagePosition (position (analysis out)) = - 1
           \<and> relativePosition (position (analysis out)) = End
           \<and> factors (visibility (analysis out)) =
               \<lparr>mentionCount = 0, positionScore = 5, sentimentScore = 15,
                competitorComparison = 15\<rparr>
           \<and> vs_score (visibility (analysis out)) = 35
           \<and> js ''Critical: No brand mentions detected'' \<in> set (recommendations (analysis out))"
proof -
  have b: "analyzeBrandMentions ct (ai_result input) (brandNames (ai_client input)) = Some []"
    using assms(1,2)
    by (simp add: analyzeBrandMentions_def no_whole_word_match_iff
        analyzeBrandMentions_loop_no_match)
  have c: "analyzeCompetitorMentions ct (ai_result input)
             (case competitorNames (ai_client input) of None \<Rightarrow> [] | Some ns \<Rightarrow> ns) = Some []"
    using assms(1,3)
    by (simp add: analyzeCompetitorMentions_def no_whole_word_match_iff
        analyzeCompetitorMentions_loop_no_match)
  have s: "analyzeSentiment (ai_result input) [] =
             \<lparr>overall = Neutral, score = 0,
              breakdown = \<lparr>sb_positive = 0, sb_neutral = 0, sb_negative = 0\<rparr>\<rparr>"
    by (simp add: analyzeSentiment_def)
  have p: "analyzePosition [] =
             \<lparr>averagePosition = - 1, firstMentionPosition = - 1, lastMentionPosition = - 1,
              relativePosition = End\<rparr>"
    by (simp add: analyzePosition_def)
  have v: "calculateVisibilityScore [] []
             \<lparr>overall = Neutral, score = 0,
              breakdown = \<lparr>sb_positive = 0, sb_neutral = 0, sb_negative = 0\<rparr>\<rparr>
             \<lparr>averagePosition = - 1, firstMentionPosition = - 1, lastMentionPosition = - 1,
              relativePosition = End\<rparr> =
             \<lparr>vs_score = 35,
              factors = \<lparr>mentionCount = 0, positionScore = 5, sentimentScore = 15,
                         competitorComparison = 15\<rparr>\<rparr>"
    by (simp add: calculateVisibilityScore_def)
  show ?thesis
    unfolding AnalyzerAgent_execute_def b c
    by (simp add: Let_def s p v recommendations_no_mentions)
qed

theorem C6_zero_mentions_witness:
  "no_whole_word_match latin1_tables (js ''Hi Bob'') [js ''Acme'']
   \<and> no_whole_word_match latin1_tables (js ''Hi Bob'') [js ''Bo'']
   \<and> map_option (\<lambda>out. vs_score (visibility (analysis out)))
         (AnalyzerAgent_execute latin1_tables 1000
            \<lparr>ai_result = \<lparr>response = Some (js ''Hi Bob'')\<rparr>,
             ai_client = \<lparr>client_id = 1, client_name = js ''Acme Corp'',
                          brandNames = [js ''Acme''], competitorNames = Some [js ''Bo'']\<rparr>,
             ai_platform = chatgpt\<rparr>) = Some 35"
proof -
  let ?input = "\<lparr>ai_result = \<lparr>response = Some (js ''Hi Bob'')\<rparr>,
         ai_client = \<lparr>client_id = 1, client_name = js ''Acme Corp'',
                      brandNames = [js ''Acme''], competitorNames = Some [js ''Bo'']\<rparr>,
         ai_platform = chatgpt\<rparr>"
  have h1: "js ''Hi Bob'' =
              (case response (ai_result ?input) of None \<Rightarrow> [] | Some r \<Rightarrow> r)"
    by simp
  have t: "js ''Hi Bob'' = [72, 105, 32, 66, 111, 98]" by (simp add: js_def)
  have u: "[0 ..< length [72, 105, 32, 66, 111, 98 :: nat] + 1] = [0, 1, 2, 3, 4, 5, 6]"
    by (simp add: upt_rec)
  have a: "no_whole_word_match latin1_tables (js ''Hi Bob'') [js ''Acme'']"
    unfolding no_whole_word_match_def t u
    by (simp add: word_match_at_def js_def latin1_tables_def)
  have i: "no_whole_word_match latin1_tables (js ''Hi Bob'') [js ''Bo'']"
    unfolding no_whole_word_match_def t u
    by (simp add: word_match_at_def word_boundary_def word_at_def word_char_def js_def
        latin1_tables_def)
  have h2: "no_whole_word_match latin1_tables (js ''Hi Bob'') (brandNames (ai_client ?input))"
    using a by simp
  have h3: "no_whole_word_match latin1_tables (js ''Hi Bob'')
              (case competitorNames (ai_client ?input) of None \<Rightarrow> [] | Some ns \<Rightarrow> ns)"
    using i by simp
  from C6_zero_mentions [OF h1 h2 h3, of 1000]
  obtain out where o: "AnalyzerAgent_execute latin1_tables 1000 ?input = Some out"
    and v: "vs_score (visibility (analysis out)) = 35"
    by blast
  have "map_option (\<lambda>out. vs_score (visibility (analysis out)))
          (AnalyzerAgent_execute latin1_tables 1000 ?input) = Some 35"
    unfolding o using v by simp
  with a i show ?thesis by (intro conjI)
qed

section \<open>Properties of the workflow\<close>

lemma retry_no_attempts:
  "attempts options < 1 \<Longrightarrow> retry sleep fn options s = (Inl Undefined, s)"
  by (simp add: retry_def retry_from.simps [of _ _ _ 1])

lemma retry_first_success:
  "1 \<le> attempts options \<Longrightarrow> fn s = (Inr v, s1) \<Longrightarrow> retry sleep fn options s = (Inr v, s1)"
  by (simp add: retry_def retry_from.simps [of _ _ _ 1])

lemma chunkArray_two_by_one: "chunkArray [a, b] (Suc 0) = Some [[a], [b]]"
  by (simp add: chunkArray.simps [of "_ # _"] chunkArray.simps [of "[]"])











text \<open>A batch of one client: its task, run step by step, ends as \<open>process_client\<close> does.\<close>

lemma run_tasks_settled:
  "run_tasks env input b k [Settled r] w = ([Settled r], w)"
  by (subst run_tasks.simps) (simp add: waiting_indices_def)

lemma run_tasks_waiting:
  "run_tasks env input b k [Waiting t] w =
     run_tasks env input b (Suc k) [fst (resume env input t w)] (snd (resume env input t w))"
  by (subst run_tasks.simps [of _ _ _ _ "[Waiting t]"])
    (simp add: waiting_indices_def split_beta)

lemma run_tasks_start_attempt:
  fixes env :: "('a, 'r) env"
  assumes head: "\<And>crs1 w1 k. run_tasks env input b k [fst (loop_head env client rest crs1 w1)]
                     (snd (loop_head env client rest crs1 w1)) = D crs1 w1"
    and n: "nat (v_maxRetries input + 1 - attempt) = n"
  shows "run_tasks env input b k
           [fst (start_attempt env input client p rest crs attempt lastError w)]
           (snd (start_attempt env input client p rest crs attempt lastError w)) =
         (case retry_from (\<lambda>ms w. w) (scrape_once env input client p)
                 (workflow_retry_options input) attempt lastError w of
            (Inl err, w3) \<Rightarrow>
              (case scrape_catch env client p err crs w3 of
                 (Inl thrownByCatch, w4) \<Rightarrow> ([Settled (Inl thrownByCatch)], w4)
               | (Inr crs1, w4) \<Rightarrow> D crs1 w4)
          | (Inr result, w3) \<Rightarrow>
              (let w4 = set_breaker w3 (client_id client, p)
                          (recordSuccess (get_breaker w3 (client_id client, p)))
               in case analyzer env of
                    None \<Rightarrow> D (crs @ [Unanalyzed p result]) w4
                  | Some analyzerAgent \<Rightarrow>
                      (case analyzerAgent result client p of
                         Inl e \<Rightarrow>
                           (case scrape_catch env client p (Error e) crs w4 of
                              (Inl thrownByCatch, w5) \<Rightarrow> ([Settled (Inl thrownByCatch)], w5)
                            | (Inr crs1, w5) \<Rightarrow> D crs1 w5)
                       | Inr analysed \<Rightarrow> D (crs @ [Analyzed p analysed result]) w4)))"
  using n
proof (induction n arbitrary: attempt lastError w k)
  case 0
  then have a: "\<not> attempt \<le> v_maxRetries input" by simp
  have c: "run_tasks env input b k0 [fst (after_catch env client p rest err crs w0)]
             (snd (after_catch env client p rest err crs w0)) =
           (case scrape_catch env client p err crs w0 of
              (Inl thrownByCatch, w4) \<Rightarrow> ([Settled (Inl thrownByCatch)], w4)
            | (Inr crs1, w4) \<Rightarrow> D crs1 w4)" for err w0 k0
    by (simp add: after_catch_def head run_tasks_settled split: prod.splits sum.splits)
  show ?case
    using a
    by (subst retry_from.simps)
      (simp add: workflow_retry_options_def start_attempt_def run_tasks_waiting resume_def c)
next
  case (Suc n)
  then have a: "attempt \<le> v_maxRetries input" by simp
  have c: "run_tasks env input b k0 [fst (after_catch env client p rest err crs w0)]
             (snd (after_catch env client p rest err crs w0)) =
           (case scrape_catch env client p err crs w0 of
              (Inl thrownByCatch, w4) \<Rightarrow> ([Settled (Inl thrownByCatch)], w4)
            | (Inr crs1, w4) \<Rightarrow> D crs1 w4)" for err w0 k0
    by (simp add: after_catch_def head run_tasks_settled split: prod.splits sum.splits)
  obtain x w1 where f: "scrape_once env input client p w = (x, w1)"
    by (cases "scrape_once env input client p w")
  have m: "nat (v_maxRetries input + 1 - (attempt + 1)) = n"
    using Suc.prems by simp
  show ?case
  proof (cases x)
    case (Inr result)
    show ?thesis
      using a
      by (subst retry_from.simps)
        (simp add: workflow_retry_options_def start_attempt_def f Inr run_tasks_waiting
          resume_def Let_def head c split: option.splits sum.splits)
  next
    case (Inl e)
    show ?thesis
    proof (cases "isRetryableError e")
      case (Inl thrownByCondition)
      show ?thesis
        using a
        by (subst retry_from.simps)
          (simp add: workflow_retry_options_def start_attempt_def f \<open>x = Inl e\<close> Inl
            run_tasks_waiting resume_def Let_def c)
    next
      case (Inr retryable)
      show ?thesis
      proof (cases "retryable \<and> attempt \<noteq> v_maxRetries input")
        case False
        then show ?thesis
          using a
          by (subst retry_from.simps)
            (auto simp add: workflow_retry_options_def start_attempt_def f \<open>x = Inl e\<close> Inr
              run_tasks_waiting resume_def Let_def c)
      next
        case True
        then show ?thesis
          using a Suc.IH [where attempt = "attempt + 1" and w = w1 and lastError = "Error e"
              and k = "Suc (Suc k)", OF m]
          by (subst retry_from.simps)
            (simp add: workflow_retry_options_def start_attempt_def f \<open>x = Inl e\<close> Inr
              run_tasks_waiting resume_def Let_def)
      qed
    qed
  qed
qed

lemma run_tasks_loop_head:
  fixes env :: "('a, 'r) env"
  shows "run_tasks env input b k [fst (loop_head env client rest crs w)]
           (snd (loop_head env client rest crs w)) =
         (case process_platforms env input client rest crs w of
            (Inl err, w1) \<Rightarrow> ([Settled (Inl err)], w1)
          | (Inr crs1, w1) \<Rightarrow>
              (case Date_now env w1 of (t, w2) \<Rightarrow>
                 ([Settled (Inr \<lparr>cr_clientId = client_id client,
                                 cr_clientName = client_name client,
                                 cr_results = crs1, cr_timestamp = t\<rparr>)], w2)))"
proof (induction rest arbitrary: crs w k)
  case Nil
  show ?case by (simp add: run_tasks_settled split_beta)
next
  case (Cons p rest)
  let ?D = "\<lambda>crs w. (case process_platforms env input client rest crs w of
            (Inl err, w1) \<Rightarrow> ([Settled (Inl err)], w1)
          | (Inr crs1, w1) \<Rightarrow>
              (case Date_now env w1 of (t, w2) \<Rightarrow>
                 ([Settled (Inr \<lparr>cr_clientId = client_id client,
                                 cr_clientName = client_name client,
                                 cr_results = crs1, cr_timestamp = t\<rparr>)], w2)))"
  note head = Cons.IH
  have att: "run_tasks env input b k0
           [fst (start_attempt env input client p rest crs 1 Undefined w0)]
           (snd (start_attempt env input client p rest crs 1 Undefined w0)) =
         (case retry (\<lambda>ms w. w) (scrape_once env input client p)
                 (workflow_retry_options input) w0 of
            (Inl err, w3) \<Rightarrow>
              (case scrape_catch env client p err crs w3 of
                 (Inl thrownByCatch, w4) \<Rightarrow> ([Settled (Inl thrownByCatch)], w4)
               | (Inr crs1, w4) \<Rightarrow> ?D crs1 w4)
          | (Inr result, w3) \<Rightarrow>
              (let w4 = set_breaker w3 (client_id client, p)
                          (recordSuccess (get_breaker w3 (client_id client, p)))
               in case analyzer env of
                    None \<Rightarrow> ?D (crs @ [Unanalyzed p result]) w4
                  | Some analyzerAgent \<Rightarrow>
                      (case analyzerAgent result client p of
                         Inl e \<Rightarrow>
                           (case scrape_catch env client p (Error e) crs w4 of
                              (Inl thrownByCatch, w5) \<Rightarrow> ([Settled (Inl thrownByCatch)], w5)
                            | (Inr crs1, w5) \<Rightarrow> ?D crs1 w5)
                       | Inr analysed \<Rightarrow> ?D (crs @ [Analyzed p analysed result]) w4)))"
    for k0 w0
    unfolding retry_def
    by (rule run_tasks_start_attempt [where D = ?D, OF head refl])
  obtain isopen w1 where b: "breaker_isOpen env (client_id client, p) w = (isopen, w1)"
    by (cases "breaker_isOpen env (client_id client, p) w")
  show ?case
  proof (cases isopen)
    case True
    show ?thesis
      by (simp add: process_platform_def Let_def b True head split_beta)
  next
    case False
    obtain ok w2 where l: "limiter_tryAcquire env p w1 = (ok, w2)"
      by (cases "limiter_tryAcquire env p w1")
    show ?thesis
    proof (cases ok)
      case False
      show ?thesis
        by (simp add: process_platform_def Let_def b \<open>\<not> isopen\<close> l False run_tasks_waiting
            resume_def head split_beta)
    next
      case True
      obtain r w3 where r: "retry (\<lambda>ms w. w) (scrape_once env input client p)
                 (workflow_retry_options input) w2 = (r, w3)"
        by (cases "retry (\<lambda>ms w. w) (scrape_once env input client p)
                 (workflow_retry_options input) w2")
      show ?thesis
        by (simp add: process_platform_def Let_def b \<open>\<not> isopen\<close> l True run_tasks_waiting
            resume_def att r split: sum.splits option.splits prod.splits)
    qed
  qed
qed

lemma settle_clients_single:
  "settle_clients env input ps b [client] w =
     (case process_client env input ps client w of (r, w1) \<Rightarrow> ([r], w1))"
  using run_tasks_loop_head [of env input b 0 client ps "[]" w]
  by (simp add: settle_clients_def process_client_def split_beta
      split: sum.splits prod.splits)


lemma errors_set_breaker [simp]: "errors (set_breaker w k c) = errors w"
  by (simp add: set_breaker_def)































lemma e2e_input:
  "MonitoringInputSchema_parse e2e_request =
     Inr \<lparr>v_clientIds = None, v_platforms = Some [chatgpt, perplexity], v_priority = Low,
          v_retryOnFailure = True, v_maxRetries = 0, v_timeout = 30000\<rparr>"
  by (simp add: MonitoringInputSchema_parse_def e2e_request_def)


lemmas unit_defs =
  Date_now_def process_platform_def breaker_isOpen_def get_breaker_def set_breaker_def
  breaker_options_def isOpen_def new_CircuitBreaker_def limiter_tryAcquire_def tryAcquire_def
  new_RateLimiter_def scrape_catch_def recordFailure_def recordSuccess_def Let_def
  e2e_world_def e2e_open_breaker_def

lemmas e2e_defs =
  unit_defs getClients_def e2e_env_def process_client_def e2e_client1_def e2e_client2_def
  workflow_retry_options_def

text \<open>
  The two clients in one batch, two platforms, one admission per limiter. Client 1 is
  admitted on \<open>chatgpt\<close> before client 2 asks. When the task of client 2 goes on first, it
  records its rate-limit error and is admitted on \<open>perplexity\<close>, and client 1 is turned away
  there. Run one after the other, client 1 is admitted on both platforms and client 2 on
  none.
\<close>

lemma interleaved_admissions:
  "(case settle_clients second_first_env e2e_input3 [chatgpt, perplexity] 0
           [e2e_client1, e2e_client2] one_slot_world of
      (outcomes, w) \<Rightarrow>
        (map (map_sum id (\<lambda>c. (cr_clientId c, cr_results c))) outcomes,
         map (\<lambda>x. (e_clientId x, e_platform x, e_error x)) (errors w))) =
   ([Inr (1, [Unanalyzed chatgpt \<lparr>response = Some (js ''ok'')\<rparr>]),
     Inr (2, [Unanalyzed perplexity \<lparr>response = Some (js ''ok'')\<rparr>])],
    [(Some 2, Some chatgpt, js ''Rate limit exceeded''),
     (Some 1, Some perplexity, js ''Rate limit exceeded'')])"
  by (simp add: settle_clients_def run_tasks.simps waiting_indices_def resume_def
      start_attempt_def after_catch_def scrape_once_def limiter_getResetTime_def getResetTime_def
      one_slot_world_def second_first_env_def e2e_input3_def e2e_defs)

lemma one_after_the_other_admissions:
  "(case process_client e2e_env e2e_input3 [chatgpt, perplexity] e2e_client1 one_slot_world of
      (r1, w1) \<Rightarrow>
        (case process_client e2e_env e2e_input3 [chatgpt, perplexity] e2e_client2 w1 of
           (r2, w2) \<Rightarrow>
             (map (map_sum id (\<lambda>c. (cr_clientId c, cr_results c))) [r1, r2],
              map (\<lambda>x. (e_clientId x, e_platform x, e_error x)) (errors w2)))) =
   ([Inr (1, [Unanalyzed chatgpt \<lparr>response = Some (js ''ok'')\<rparr>,
              Unanalyzed perplexity \<lparr>response = Some (js ''ok'')\<rparr>]),
     Inr (2, [])],
    [(Some 2, Some chatgpt, js ''Rate limit exceeded''),
     (Some 2, Some perplexity, js ''Rate limit exceeded'')])"
  by (simp add: retry_first_success scrape_once_def limiter_getResetTime_def getResetTime_def
      one_slot_world_def e2e_input3_def e2e_defs)

text \<open>
  C2, on the code. In the scenario of the claim (priority low, \<open>maxRetries = 0\<close>, two
  clients, two platforms, one breaker pre-opened) the run ends with the scraper never
  invoked, one \<open>Circuit breaker open\<close> error followed by two \<open>TypeError\<close> entries of
  rejected clients, and no client result.
\<close>

theorem C2_zero_retries_scenario:
  "map_option (\<lambda>(r, w). (scrape_calls w, map e_error (errors w), length (results w)))
     (execute e2e_env e2e_request e2e_world) =
   Some (0, [js ''Circuit breaker open'', message undefined_message_TypeError,
             message undefined_message_TypeError], 0)"
  unfolding execute_def e2e_input
  by (simp add: chunkArray_two_by_one settle_clients_single retry_no_attempts e2e_defs)




lemma process_platform_analysis_failed:
  assumes "\<not> fst (breaker_isOpen env (client_id client, p) w)"
    and "limiter_tryAcquire env p (snd (breaker_isOpen env (client_id client, p) w)) = (True, w2)"
    and "retry (\<lambda>ms w. w) (scrape_once env input client p) (workflow_retry_options input) w2
         = (Inr result, w3)"
    and "analyzer env = Some analyzerAgent"
    and "analyzerAgent result client p = Inl e"
  shows "get_breaker (snd (process_platform env input client p crs w)) (client_id client, p) =
         recordFailure (clock env (clock_reads w3))
           (recordSuccess (get_breaker w3 (client_id client, p)))"
    and "fst (process_platform env input client p crs w) = Inr (crs @ [Failed p (message e)])"
proof -
  obtain w1 where b: "breaker_isOpen env (client_id client, p) w = (False, w1)"
    using assms(1) by (cases "breaker_isOpen env (client_id client, p) w") simp
  have l: "limiter_tryAcquire env p w1 = (True, w2)"
    using assms(2) b by simp
  show "get_breaker (snd (process_platform env input client p crs w)) (client_id client, p) =
         recordFailure (clock env (clock_reads w3))
           (recordSuccess (get_breaker w3 (client_id client, p)))"
    by (simp add: process_platform_def b l assms(3,4,5) scrape_catch_def Date_now_def Let_def
        set_breaker_def get_breaker_def)
  show "fst (process_platform env input client p crs w) = Inr (crs @ [Failed p (message e)])"
    by (simp add: process_platform_def b l assms(3,4,5) scrape_catch_def Date_now_def Let_def)
qed

text \<open>
  C1, on the code. The scrape of client 2 on \<open>chatgpt\<close> succeeds and the analyzer throws.
  With a new breaker, \<open>recordSuccess\<close> leaves \<open>failureCount = 0\<close> and the unit ends with
  \<open>failureCount = 1\<close>; with a HALF_OPEN breaker, \<open>recordSuccess\<close> leaves HALF_OPEN and the
  unit ends with the breaker OPEN. The unit is reported as a failed scrape.
\<close>

theorem C1_analysis_failure_scenario:
  "failureCount (recordSuccess (get_breaker e2e_world (2, chatgpt))) = 0
   \<and> failureCount (get_breaker
         (snd (process_platform failing_analyzer_env e2e_input3 e2e_client2 chatgpt [] e2e_world))
         (2, chatgpt)) = 1
   \<and> state (recordSuccess (get_breaker half_open_world (2, chatgpt))) = HALF_OPEN
   \<and> state (get_breaker
         (snd (process_platform failing_analyzer_env e2e_input3 e2e_client2 chatgpt []
                 half_open_world))
         (2, chatgpt)) = OPEN
   \<and> fst (process_platform failing_analyzer_env e2e_input3 e2e_client2 chatgpt [] e2e_world)
       = Inr [Failed chatgpt (message analysis_error)]"
proof -
  have r: "retry (\<lambda>ms w. w) (scrape_once failing_analyzer_env e2e_input3 e2e_client2 chatgpt)
             (workflow_retry_options e2e_input3) w
           = (Inr \<lparr>response = Some (js ''ok'')\<rparr>, w\<lparr>scrape_calls := Suc (scrape_calls w)\<rparr>)"
    for w :: "(unit, ScrapeResult) world"
    by (rule retry_first_success)
      (simp_all add: workflow_retry_options_def e2e_input3_def scrape_once_def
        failing_analyzer_env_def e2e_env_def)
  have env: "clock failing_analyzer_env = (\<lambda>n. 1000000 + int n)"
    "analyzer failing_analyzer_env = Some (\<lambda>r c p. Inl analysis_error)"
    by (simp_all add: failing_analyzer_env_def e2e_env_def)
  have cid: "client_id e2e_client2 = 2"
    by (simp add: e2e_client2_def)
  have 1: "failureCount (recordSuccess (get_breaker e2e_world (2, chatgpt))) = 0"
    by (simp add: unit_defs)
  have 2: "failureCount (get_breaker
         (snd (process_platform failing_analyzer_env e2e_input3 e2e_client2 chatgpt [] e2e_world))
         (2, chatgpt)) = 1"
    by (simp add: r env cid unit_defs)
  have 3: "state (recordSuccess (get_breaker half_open_world (2, chatgpt))) = HALF_OPEN"
    by (simp add: half_open_world_def unit_defs)
  have 4: "state (get_breaker
         (snd (process_platform failing_analyzer_env e2e_input3 e2e_client2 chatgpt []
                 half_open_world))
         (2, chatgpt)) = OPEN"
    by (simp add: r env cid half_open_world_def unit_defs)
  have 5: "fst (process_platform failing_analyzer_env e2e_input3 e2e_client2 chatgpt [] e2e_world)
       = Inr [Failed chatgpt (message analysis_error)]"
    by (simp add: r env cid unit_defs)
  from 1 2 3 4 5 show ?thesis by (intro conjI)
qed

end
